theory Spec2Isabelle
  imports Main "HOL-Library.Word" "HOL-Library.Signed_Division"
begin

unbundle bit_operations_syntax

section \<open>Frame timeline: data model\<close>

text \<open>
  The frame timeline of the compositor (FrameTimeline.cpp) and the refresh-rate
  selector (RefreshRateConfigs.cpp) are embedded function by function.

  \<^item> \<open>nsecs_t\<close> is \<open>int64_t\<close>. Signed overflow is undefined in C++, so timestamps and their
    differences are mathematical integers here; the remainder \<open>%\<close> truncates towards
    zero (\<open>smod\<close>) and a zero divisor is a fault of the model.
  \<^item> jank masks are \<open>int32_t\<close> used only through \<open>|\<close>, \<open>&\<close> and comparison: \<open>32 word\<close>.
  \<^item> the statistics sink is external: each call made on it is recorded, in order, in
    a list returned by the operation. Of the trace sink the model records only that
    \<open>trace\<close> is called on a display frame.
  \<^item> \<open>TimelineItem()\<close>, the default constructor, is the triple of zeros.
\<close>

type_synonym nsecs_t = int

record TimelineItem =
  startTime :: nsecs_t
  endTime :: nsecs_t
  presentTime :: nsecs_t

datatype PredictionState = Valid | Expired | PredictionNone

datatype PresentState = Presented | Dropped | PresentUnknown

datatype FramePresentMetadata = OnTimePresent | LatePresent | EarlyPresent | UnknownPresent

datatype FrameReadyMetadata = OnTimeFinish | LateFinish | UnknownFinish

datatype FrameStartMetadata = OnTimeStart | LateStart | EarlyStart | UnknownStart

record JankClassificationThresholds =
  presentThreshold :: nsecs_t
  deadlineThreshold :: nsecs_t
  startThreshold :: nsecs_t

text \<open>
  Modelled from the spec: the enumerators of \<open>JankType\<close> (the nine constants that
  follow) are declared in a header that is not part of the sources at hand. The spec
  fixes a bitmask with \<open>None == 0\<close>; the other members are distinct single bits, in the
  order in which \<open>jankTypeBitmaskToString\<close> tests them.
\<close>

definition JankType_None :: "32 word" where
  "JankType_None = 0"

definition JankType_DisplayHAL :: "32 word" where
  "JankType_DisplayHAL = 1"

definition JankType_SurfaceFlingerCpuDeadlineMissed :: "32 word" where
  "JankType_SurfaceFlingerCpuDeadlineMissed = 2"

definition JankType_SurfaceFlingerGpuDeadlineMissed :: "32 word" where
  "JankType_SurfaceFlingerGpuDeadlineMissed = 4"

definition JankType_AppDeadlineMissed :: "32 word" where
  "JankType_AppDeadlineMissed = 8"

definition JankType_PredictionError :: "32 word" where
  "JankType_PredictionError = 16"

definition JankType_SurfaceFlingerScheduling :: "32 word" where
  "JankType_SurfaceFlingerScheduling = 32"

definition JankType_BufferStuffing :: "32 word" where
  "JankType_BufferStuffing = 64"

definition JankType_Unknown :: "32 word" where
  "JankType_Unknown = 128"

text \<open>The calls received by the statistics sink (\<open>TimeStats\<close>), two overloads.\<close>

datatype TimeStatsCall =
  IncrementJankyFramesLayer nat string "32 word"
| IncrementJankyFrames "32 word"

text \<open>
  The ways in which a call does not return: a remainder or quotient by zero, a fatal
  log (\<open>LOG_ALWAYS_FATAL_IF\<close>), \<open>at\<close> on a key that a map does not hold, and \<open>front\<close>,
  \<open>back\<close> or \<open>pop_front\<close> on an empty container.
\<close>

datatype fault = DivideByZero | FatalAbort | OutOfRange | EmptyContainer

section \<open>SurfaceFrame\<close>

record SurfaceFrame =
  mToken :: int
  mOwnerPid :: int
  mOwnerUid :: nat
  mLayerName :: string
  mDebugName :: string
  mPresentState :: PresentState
  mPredictionState :: PredictionState
  mPredictions :: TimelineItem
  mActuals :: TimelineItem
  mJankClassificationThresholds :: JankClassificationThresholds
  mActualQueueTime :: nsecs_t
  mJankType :: "32 word"
  mGpuComposition :: bool
  mFramePresentMetadata :: FramePresentMetadata
  mFrameReadyMetadata :: FrameReadyMetadata
  mLastLatchTime :: nsecs_t

text \<open>
  Modelled from the spec: the default member initialisers of \<open>SurfaceFrame\<close>, in a class
  declaration that is not part of the sources at hand: no queue time and no latch time
  yet (0), jank \<open>None\<close>, metadata \<open>Unknown\<close>, no GPU composition. The other members
  are set by the initialiser list of the constructor, which is in the source: the
  identity, \<open>mPresentState = Unknown\<close>, the predictions and \<open>mActuals = {0, 0, 0}\<close>.
\<close>

definition SurfaceFrame_new ::
  "int \<Rightarrow> int \<Rightarrow> nat \<Rightarrow> string \<Rightarrow> string \<Rightarrow> PredictionState \<Rightarrow> TimelineItem
    \<Rightarrow> JankClassificationThresholds \<Rightarrow> SurfaceFrame" where
  "SurfaceFrame_new token ownerPid ownerUid layerName debugName predictionState predictions
      thresholds =
    \<lparr> mToken = token, mOwnerPid = ownerPid, mOwnerUid = ownerUid, mLayerName = layerName,
      mDebugName = debugName, mPresentState = PresentUnknown,
      mPredictionState = predictionState, mPredictions = predictions,
      mActuals = \<lparr> startTime = 0, endTime = 0, presentTime = 0 \<rparr>,
      mJankClassificationThresholds = thresholds,
      mActualQueueTime = 0, mJankType = JankType_None, mGpuComposition = False,
      mFramePresentMetadata = UnknownPresent, mFrameReadyMetadata = UnknownFinish,
      mLastLatchTime = 0 \<rparr>"

definition SurfaceFrame_setActualStartTime :: "nsecs_t \<Rightarrow> SurfaceFrame \<Rightarrow> SurfaceFrame" where
  "SurfaceFrame_setActualStartTime actualStartTime sf =
    sf\<lparr> mActuals := (mActuals sf)\<lparr> startTime := actualStartTime \<rparr> \<rparr>"

definition setActualQueueTime :: "nsecs_t \<Rightarrow> SurfaceFrame \<Rightarrow> SurfaceFrame" where
  "setActualQueueTime actualQueueTime sf = sf\<lparr> mActualQueueTime := actualQueueTime \<rparr>"

definition setAcquireFenceTime :: "nsecs_t \<Rightarrow> SurfaceFrame \<Rightarrow> SurfaceFrame" where
  "setAcquireFenceTime acquireFenceTime sf =
    sf\<lparr> mActuals := (mActuals sf)\<lparr> endTime := max acquireFenceTime (mActualQueueTime sf) \<rparr> \<rparr>"

definition setPresentState :: "PresentState \<Rightarrow> nsecs_t \<Rightarrow> SurfaceFrame \<Rightarrow> SurfaceFrame" where
  "setPresentState presentState lastLatchTime sf =
    sf\<lparr> mPresentState := presentState, mLastLatchTime := lastLatchTime \<rparr>"

definition SurfaceFrame_getJankType :: "SurfaceFrame \<Rightarrow> 32 word option" where
  "SurfaceFrame_getJankType sf =
    (if presentTime (mActuals sf) = 0 then None else Some (mJankType sf))"

text \<open>
  \<open>SurfaceFrame::onPresent\<close>, in two parts. \<open>SurfaceFrame_classify\<close> is the body from
  the computation of \<open>presentDelta\<close> up to the last assignment of \<open>mJankType\<close>, for a
  nonzero \<open>vsyncPeriod\<close>; \<open>SurfaceFrame_onPresent\<close> is the whole function: the early
  returns, the remainder by \<open>vsyncPeriod\<close>, and the calls made on the statistics
  sink. Its result is the frame as the call leaves it and those calls.
\<close>

definition SurfaceFrame_classify :: "32 word \<Rightarrow> nsecs_t \<Rightarrow> SurfaceFrame \<Rightarrow> SurfaceFrame" where
  "SurfaceFrame_classify displayFrameJankType vsyncPeriod sf1 =
    (let presentDelta = presentTime (mActuals sf1) - presentTime (mPredictions sf1);
         deadlineDelta = endTime (mActuals sf1) - endTime (mPredictions sf1);
         deltaToVsync = \<bar>presentDelta\<bar> smod vsyncPeriod;
         th = mJankClassificationThresholds sf1;
         ready = (if deadlineDelta > deadlineThreshold th then LateFinish else OnTimeFinish);
         present = (if \<bar>presentDelta\<bar> > presentThreshold th
                    then (if presentDelta > 0 then LatePresent else EarlyPresent)
                    else OnTimePresent);
         sf2 = sf1\<lparr> mFrameReadyMetadata := ready, mFramePresentMetadata := present \<rparr>;
         factorOfVsync = (deltaToVsync < presentThreshold th \<or>
                          deltaToVsync \<ge> vsyncPeriod - presentThreshold th)
     in
     if present = OnTimePresent then sf2\<lparr> mJankType := JankType_None \<rparr>
     else if present = EarlyPresent then
       (if ready = OnTimeFinish then
          (if factorOfVsync
           then sf2\<lparr> mJankType := JankType_SurfaceFlingerScheduling \<rparr>
           else sf2\<lparr> mJankType := JankType_PredictionError \<rparr>)
        else if ready = LateFinish then sf2\<lparr> mJankType := JankType_Unknown \<rparr>
        else sf2)
     else
       (let sf2b =
          (if mLastLatchTime sf2 \<noteq> 0 \<and> endTime (mPredictions sf2) \<le> mLastLatchTime sf2
           then sf2\<lparr> mJankType := mJankType sf2 OR JankType_BufferStuffing \<rparr>
           else sf2)
        in
        if ready = OnTimeFinish then
          (if displayFrameJankType \<noteq> JankType_None
           then sf2b\<lparr> mJankType := mJankType sf2b OR displayFrameJankType \<rparr>
           else if factorOfVsync
           then sf2b\<lparr> mJankType := mJankType sf2b OR JankType_SurfaceFlingerScheduling \<rparr>
           else sf2b\<lparr> mJankType := mJankType sf2b OR JankType_PredictionError \<rparr>)
        else if ready = LateFinish then
          (if displayFrameJankType = JankType_None
           then sf2b\<lparr> mJankType := mJankType sf2b OR JankType_AppDeadlineMissed \<rparr>
           else sf2b\<lparr> mJankType := mJankType sf2b OR displayFrameJankType \<rparr>)
        else sf2b))"

definition SurfaceFrame_onPresent ::
  "nsecs_t \<Rightarrow> 32 word \<Rightarrow> nsecs_t \<Rightarrow> SurfaceFrame \<Rightarrow> fault + (SurfaceFrame \<times> TimeStatsCall list)" where
  "SurfaceFrame_onPresent aPresentTime displayFrameJankType vsyncPeriod sf =
    (if mPresentState sf \<noteq> Presented then Inr (sf, [])
     else
       let sf1 = sf\<lparr> mActuals := (mActuals sf)\<lparr> presentTime := aPresentTime \<rparr> \<rparr> in
       if mPredictionState sf1 = PredictionNone then Inr (sf1, [])
       else if mPredictionState sf1 = Expired then
         (let sf2 = sf1\<lparr> mJankType := JankType_Unknown,
                          mFramePresentMetadata := UnknownPresent,
                          mFrameReadyMetadata := UnknownFinish \<rparr>
          in Inr (sf2, [IncrementJankyFramesLayer (mOwnerUid sf2) (mLayerName sf2) (mJankType sf2)]))
       else if vsyncPeriod = 0 then Inl DivideByZero
       else
         let sf3 = SurfaceFrame_classify displayFrameJankType vsyncPeriod sf1
         in Inr (sf3, [IncrementJankyFramesLayer (mOwnerUid sf3) (mLayerName sf3) (mJankType sf3)]))"

section \<open>DisplayFrame\<close>

record DisplayFrame =
  mToken_df :: int
  mSurfaceFlingerPredictions :: TimelineItem
  mSurfaceFlingerActuals :: TimelineItem
  mJankClassificationThresholds_df :: JankClassificationThresholds
  mSurfaceFrames :: "SurfaceFrame list"
  mPredictionState_df :: PredictionState
  mJankType_df :: "32 word"
  mGpuComposition_df :: bool
  mFramePresentMetadata_df :: FramePresentMetadata
  mFrameReadyMetadata_df :: FrameReadyMetadata
  mFrameStartMetadata :: FrameStartMetadata
  mVsyncPeriod :: nsecs_t

text \<open>
  Modelled from the spec: \<open>ISurfaceComposer::INVALID_VSYNC_ID\<close>, the invalid-token
  sentinel, is declared outside the sources at hand; the spec describes it as a
  compile-time negative value.
\<close>

definition INVALID_VSYNC_ID :: int where
  "INVALID_VSYNC_ID = -1"

text \<open>
  Modelled from the spec: the default member initialisers of \<open>DisplayFrame\<close>, in a class
  declaration that is not part of the sources at hand: invalid token, no prediction,
  jank \<open>None\<close>, metadata \<open>Unknown\<close>, vsync period 0. The constructor, which is in the
  source, sets predictions and actuals to \<open>TimelineItem()\<close> and starts with no surface
  frame. A display frame holds its surface frames by value here: by the ownership rule
  of the engine a submitted surface frame is mutated by its display frame only.
\<close>

definition DisplayFrame_new :: "JankClassificationThresholds \<Rightarrow> DisplayFrame" where
  "DisplayFrame_new thresholds =
    \<lparr> mToken_df = INVALID_VSYNC_ID,
      mSurfaceFlingerPredictions = \<lparr> startTime = 0, endTime = 0, presentTime = 0 \<rparr>,
      mSurfaceFlingerActuals = \<lparr> startTime = 0, endTime = 0, presentTime = 0 \<rparr>,
      mJankClassificationThresholds_df = thresholds,
      mSurfaceFrames = [],
      mPredictionState_df = PredictionNone,
      mJankType_df = JankType_None,
      mGpuComposition_df = False,
      mFramePresentMetadata_df = UnknownPresent,
      mFrameReadyMetadata_df = UnknownFinish,
      mFrameStartMetadata = UnknownStart,
      mVsyncPeriod = 0 \<rparr>"

definition DisplayFrame_addSurfaceFrame :: "SurfaceFrame \<Rightarrow> DisplayFrame \<Rightarrow> DisplayFrame" where
  "DisplayFrame_addSurfaceFrame surfaceFrame df =
    df\<lparr> mSurfaceFrames := mSurfaceFrames df @ [surfaceFrame] \<rparr>"

definition onSfWakeUp ::
  "int \<Rightarrow> nsecs_t \<Rightarrow> TimelineItem option \<Rightarrow> nsecs_t \<Rightarrow> DisplayFrame \<Rightarrow> DisplayFrame" where
  "onSfWakeUp token vsyncPeriod predictions wakeUpTime df =
    (let df1 = df\<lparr> mToken_df := token, mVsyncPeriod := vsyncPeriod \<rparr>;
         df2 = (case predictions of
                  None \<Rightarrow> df1\<lparr> mPredictionState_df := Expired \<rparr>
                | Some p \<Rightarrow> df1\<lparr> mPredictionState_df := Valid,
                                 mSurfaceFlingerPredictions := p \<rparr>)
     in df2\<lparr> mSurfaceFlingerActuals := (mSurfaceFlingerActuals df2)\<lparr> startTime := wakeUpTime \<rparr> \<rparr>)"

definition setActualEndTime :: "nsecs_t \<Rightarrow> DisplayFrame \<Rightarrow> DisplayFrame" where
  "setActualEndTime actualEndTime df =
    df\<lparr> mSurfaceFlingerActuals := (mSurfaceFlingerActuals df)\<lparr> endTime := actualEndTime \<rparr> \<rparr>"

text \<open>
  The loop of \<open>DisplayFrame::onPresent\<close> over its surface frames: each frame is
  classified, then its jank type is read back through \<open>getJankType\<close> and, when
  present, joined to \<open>totalJankReasons\<close>.
\<close>

fun onPresent_surfaceFrames ::
  "nsecs_t \<Rightarrow> 32 word \<Rightarrow> nsecs_t \<Rightarrow> SurfaceFrame list \<Rightarrow> 32 word
    \<Rightarrow> fault + (SurfaceFrame list \<times> 32 word \<times> TimeStatsCall list)" where
  "onPresent_surfaceFrames signalTime jank vsyncPeriod [] totalJankReasons =
     Inr ([], totalJankReasons, [])"
| "onPresent_surfaceFrames signalTime jank vsyncPeriod (sf # sfs) totalJankReasons =
     (case SurfaceFrame_onPresent signalTime jank vsyncPeriod sf of
        Inl e \<Rightarrow> Inl e
      | Inr (sf', calls) \<Rightarrow>
          (let total' = (case SurfaceFrame_getJankType sf' of
                           None \<Rightarrow> totalJankReasons
                         | Some surfaceFrameJankType \<Rightarrow> totalJankReasons OR surfaceFrameJankType)
           in case onPresent_surfaceFrames signalTime jank vsyncPeriod sfs total' of
                Inl e \<Rightarrow> Inl e
              | Inr (sfs', totalOut, calls') \<Rightarrow> Inr (sf' # sfs', totalOut, calls @ calls')))"

text \<open>
  \<open>DisplayFrame::onPresent\<close>, in two parts. \<open>DisplayFrame_classify\<close> is the body from
  the computation of \<open>presentDelta\<close> up to the last assignment of \<open>mJankType\<close>, for a
  nonzero \<open>mVsyncPeriod\<close>; \<open>DisplayFrame_onPresent\<close> is the whole function. Its result
  is the frame as the call leaves it and the calls made on the statistics sink, the
  last of which reports \<open>totalJankReasons\<close>.
\<close>

definition DisplayFrame_classify :: "DisplayFrame \<Rightarrow> DisplayFrame" where
  "DisplayFrame_classify df1 =
    (let presentDelta = presentTime (mSurfaceFlingerActuals df1)
                        - presentTime (mSurfaceFlingerPredictions df1);
         deltaToVsync = \<bar>presentDelta\<bar> smod mVsyncPeriod df1;
         th = mJankClassificationThresholds_df df1;
         df2 = df1\<lparr> mFramePresentMetadata_df :=
                      (if \<bar>presentDelta\<bar> > presentThreshold th
                       then (if presentDelta > 0 then LatePresent else EarlyPresent)
                       else OnTimePresent) \<rparr>;
         df3 = df2\<lparr> mFrameReadyMetadata_df :=
                      (if endTime (mSurfaceFlingerActuals df2)
                            - endTime (mSurfaceFlingerPredictions df2) > deadlineThreshold th
                       then LateFinish else OnTimeFinish) \<rparr>;
         df4 = (if \<bar>startTime (mSurfaceFlingerActuals df3)
                     - startTime (mSurfaceFlingerPredictions df3)\<bar> > startThreshold th
                then df3\<lparr> mFrameStartMetadata :=
                            (if startTime (mSurfaceFlingerActuals df3)
                                  > startTime (mSurfaceFlingerPredictions df3)
                             then LateStart else EarlyStart) \<rparr>
                else df3);
         factorOfVsync = (deltaToVsync < presentThreshold th \<or>
                          deltaToVsync \<ge> mVsyncPeriod df4 - presentThreshold th)
     in
     if mFramePresentMetadata_df df4 \<noteq> OnTimePresent then
       (if mFramePresentMetadata_df df4 = EarlyPresent then
          (if mFrameReadyMetadata_df df4 = OnTimeFinish then
             (if factorOfVsync
              then df4\<lparr> mJankType_df := JankType_SurfaceFlingerScheduling \<rparr>
              else df4\<lparr> mJankType_df := JankType_PredictionError \<rparr>)
           else if mFrameReadyMetadata_df df4 = LateFinish
           then df4\<lparr> mJankType_df := JankType_SurfaceFlingerScheduling \<rparr>
           else df4\<lparr> mJankType_df := JankType_Unknown \<rparr>)
        else if mFramePresentMetadata_df df4 = LatePresent then
          (if mFrameReadyMetadata_df df4 = OnTimeFinish then
             (if factorOfVsync
              then df4\<lparr> mJankType_df := JankType_DisplayHAL \<rparr>
              else df4\<lparr> mJankType_df := JankType_PredictionError \<rparr>)
           else if mFrameReadyMetadata_df df4 = LateFinish
           then df4\<lparr> mJankType_df := JankType_SurfaceFlingerCpuDeadlineMissed \<rparr>
           else df4\<lparr> mJankType_df := JankType_Unknown \<rparr>)
        else df4\<lparr> mJankType_df := JankType_Unknown \<rparr>)
     else df4)"

definition DisplayFrame_onPresent ::
  "nsecs_t \<Rightarrow> DisplayFrame \<Rightarrow> fault + (DisplayFrame \<times> TimeStatsCall list)" where
  "DisplayFrame_onPresent signalTime df =
    (let df1 = df\<lparr> mSurfaceFlingerActuals :=
                      (mSurfaceFlingerActuals df)\<lparr> presentTime := signalTime \<rparr> \<rparr>;
         totalJankReasons = JankType_None
     in
     if mVsyncPeriod df1 = 0 then Inl DivideByZero
     else
       let df5 = DisplayFrame_classify df1;
           totalJankReasons1 = totalJankReasons OR mJankType_df df5
       in
       case onPresent_surfaceFrames signalTime (mJankType_df df5) (mVsyncPeriod df5)
              (mSurfaceFrames df5) totalJankReasons1 of
         Inl e \<Rightarrow> Inl e
       | Inr (sfs, totalOut, calls) \<Rightarrow>
           Inr (df5\<lparr> mSurfaceFrames := sfs \<rparr>, calls @ [IncrementJankyFrames totalOut]))"

text \<open>
  The two classification matrices, written from the specification (Table 4.2 for a
  surface frame, Table 4.3 for a display frame), to compare the code against. The
  Boolean says that \<open>delta_to_vsync\<close> is near 0 or near the vsync period. Table 4.2
  has no row for metadata \<open>Unknown\<close>.
\<close>

fun table_4_3 :: "FramePresentMetadata \<Rightarrow> FrameReadyMetadata \<Rightarrow> bool \<Rightarrow> 32 word" where
  "table_4_3 OnTimePresent _ _ = JankType_None"
| "table_4_3 EarlyPresent OnTimeFinish near =
     (if near then JankType_SurfaceFlingerScheduling else JankType_PredictionError)"
| "table_4_3 EarlyPresent LateFinish _ = JankType_SurfaceFlingerScheduling"
| "table_4_3 EarlyPresent UnknownFinish _ = JankType_Unknown"
| "table_4_3 LatePresent OnTimeFinish near =
     (if near then JankType_DisplayHAL else JankType_PredictionError)"
| "table_4_3 LatePresent LateFinish _ = JankType_SurfaceFlingerCpuDeadlineMissed"
| "table_4_3 LatePresent UnknownFinish _ = JankType_Unknown"
| "table_4_3 UnknownPresent _ _ = JankType_Unknown"

fun table_4_2 ::
  "FramePresentMetadata \<Rightarrow> FrameReadyMetadata \<Rightarrow> bool \<Rightarrow> 32 word \<Rightarrow> 32 word option" where
  "table_4_2 OnTimePresent _ _ _ = Some JankType_None"
| "table_4_2 EarlyPresent OnTimeFinish near _ =
     Some (if near then JankType_SurfaceFlingerScheduling else JankType_PredictionError)"
| "table_4_2 EarlyPresent LateFinish _ _ = Some JankType_Unknown"
| "table_4_2 LatePresent OnTimeFinish near parent =
     Some (if parent \<noteq> JankType_None then parent
           else if near then JankType_SurfaceFlingerScheduling
           else JankType_PredictionError)"
| "table_4_2 LatePresent LateFinish _ parent =
     Some (if parent = JankType_None then JankType_AppDeadlineMissed else parent)"
| "table_4_2 _ _ _ _ = None"

definition near_vsync :: "nsecs_t \<Rightarrow> nsecs_t \<Rightarrow> nsecs_t \<Rightarrow> bool" where
  "near_vsync presentDelta vsyncPeriod threshold =
    (\<bar>presentDelta\<bar> smod vsyncPeriod < threshold
     \<or> \<bar>presentDelta\<bar> smod vsyncPeriod \<ge> vsyncPeriod - threshold)"

text \<open>Step 9 of the surface-frame classification: the buffer-stuffing condition.\<close>

definition buffer_stuffed :: "SurfaceFrame \<Rightarrow> bool" where
  "buffer_stuffed sf =
    (mLastLatchTime sf \<noteq> 0 \<and> endTime (mPredictions sf) \<le> mLastLatchTime sf)"

definition isDisplayFrameCall :: "TimeStatsCall \<Rightarrow> bool" where
  "isDisplayFrameCall c = (case c of IncrementJankyFrames _ \<Rightarrow> True | _ \<Rightarrow> False)"

section \<open>Base time of a dump\<close>

text \<open>\<open>std::numeric_limits<nsecs_t>::max()\<close>.\<close>

definition nsecs_max :: nsecs_t where
  "nsecs_max = 2 ^ 63 - 1"

text \<open>
  \<open>getMinTime\<close>: \<open>minTime\<close> is reassigned four times, each under its own test. The last
  assignment, under the test of \<open>actuals.presentTime\<close>, takes \<open>actuals.endTime\<close>.
\<close>

definition getMinTime :: "PredictionState \<Rightarrow> TimelineItem \<Rightarrow> TimelineItem \<Rightarrow> nsecs_t" where
  "getMinTime predictionState predictions actuals =
    (let minTime0 = nsecs_max;
         minTime1 = (if predictionState = Valid then min minTime0 (startTime predictions)
                     else minTime0);
         minTime2 = (if startTime actuals \<noteq> 0 then min minTime1 (startTime actuals)
                     else minTime1);
         minTime3 = (if endTime actuals \<noteq> 0 then min minTime2 (endTime actuals)
                     else minTime2);
         minTime4 = (if presentTime actuals \<noteq> 0 then min minTime3 (endTime actuals)
                     else minTime3)
     in minTime4)"

definition SurfaceFrame_getBaseTime :: "SurfaceFrame \<Rightarrow> nsecs_t" where
  "SurfaceFrame_getBaseTime sf = getMinTime (mPredictionState sf) (mPredictions sf) (mActuals sf)"

definition DisplayFrame_getBaseTime :: "DisplayFrame \<Rightarrow> nsecs_t" where
  "DisplayFrame_getBaseTime df =
    foldl (\<lambda>baseTime surfaceFrame.
             (let surfaceFrameBaseTime = SurfaceFrame_getBaseTime surfaceFrame
              in if surfaceFrameBaseTime \<noteq> 0 then min baseTime surfaceFrameBaseTime
                 else baseTime))
      (getMinTime (mPredictionState_df df) (mSurfaceFlingerPredictions df)
         (mSurfaceFlingerActuals df))
      (mSurfaceFrames df)"

text \<open>
  The base time as the specification words it: the least of \<open>predictions.start\<close> when
  the prediction is valid and of those of \<open>actuals.start\<close>, \<open>actuals.end\<close> and
  \<open>actuals.present\<close> that are nonzero, over the display frame and its surface frames.
\<close>

definition time_candidates :: "PredictionState \<Rightarrow> TimelineItem \<Rightarrow> TimelineItem \<Rightarrow> nsecs_t list" where
  "time_candidates predictionState predictions actuals =
    (if predictionState = Valid then [startTime predictions] else [])
    @ filter (\<lambda>t. t \<noteq> 0) [startTime actuals, endTime actuals, presentTime actuals]"

definition base_time_candidates :: "DisplayFrame \<Rightarrow> nsecs_t list" where
  "base_time_candidates df =
    time_candidates (mPredictionState_df df) (mSurfaceFlingerPredictions df)
      (mSurfaceFlingerActuals df)
    @ concat (map (\<lambda>sf. time_candidates (mPredictionState sf) (mPredictions sf) (mActuals sf))
               (mSurfaceFrames df))"

definition spec_base_time :: "DisplayFrame \<Rightarrow> nsecs_t" where
  "spec_base_time df = Min (set (base_time_candidates df))"

section \<open>TokenManager\<close>

record TokenManagerPrediction =
  timestamp :: nsecs_t
  predictions :: TimelineItem

text \<open>
  Modelled from the spec: the members of \<open>TokenManager\<close> are declared in a header that
  is not part of the sources at hand. \<open>mPredictions\<close> is an ordered map keyed by token,
  iterated from the smallest token: here the list of its entries in key order.
\<close>

record TokenManager =
  mPredictions_tm :: "(int \<times> TokenManagerPrediction) list"
  mCurrentToken :: int

text \<open>
  Modelled from the spec: \<open>kMaxRetentionTime\<close>, declared in the same header, is
  120 ms.
\<close>

definition kMaxRetentionTime :: nsecs_t where
  "kMaxRetentionTime = 120000000"

text \<open>
  Modelled from the spec: the constructor of \<open>TokenManager\<close>, in the same header. The
  map is empty and the first token is the one after the invalid token.
\<close>

definition TokenManager_new :: TokenManager where
  "TokenManager_new = \<lparr> mPredictions_tm = [], mCurrentToken = INVALID_VSYNC_ID + 1 \<rparr>"

text \<open>\<open>m[key] = value\<close> on an ordered map.\<close>

fun map_assign :: "int \<Rightarrow> 'v \<Rightarrow> (int \<times> 'v) list \<Rightarrow> (int \<times> 'v) list" where
  "map_assign k v [] = [(k, v)]"
| "map_assign k v ((k', v') # m) =
     (if k < k' then (k, v) # (k', v') # m
      else if k = k' then (k, v) # m
      else (k', v') # map_assign k v m)"

text \<open>The loop of \<open>flushTokens\<close>: entries are erased from the front up to the first one kept.\<close>

fun flushTokens_loop ::
  "nsecs_t \<Rightarrow> (int \<times> TokenManagerPrediction) list \<Rightarrow> (int \<times> TokenManagerPrediction) list" where
  "flushTokens_loop flushTime [] = []"
| "flushTokens_loop flushTime (it # rest) =
     (if flushTime - timestamp (snd it) \<ge> kMaxRetentionTime
      then flushTokens_loop flushTime rest
      else it # rest)"

definition flushTokens :: "nsecs_t \<Rightarrow> TokenManager \<Rightarrow> TokenManager" where
  "flushTokens flushTime tm =
    tm\<lparr> mPredictions_tm := flushTokens_loop flushTime (mPredictions_tm tm) \<rparr>"

text \<open>
  \<open>generateTokenForPredictions\<close> reads the clock twice: \<open>stampTime\<close> for the entry and
  \<open>flushTime\<close> for the flush.
\<close>

definition generateTokenForPredictions ::
  "TimelineItem \<Rightarrow> nsecs_t \<Rightarrow> nsecs_t \<Rightarrow> TokenManager \<Rightarrow> int \<times> TokenManager" where
  "generateTokenForPredictions aPredictions stampTime flushTime tm =
    (let assignedToken = mCurrentToken tm;
         tm1 = tm\<lparr> mCurrentToken := mCurrentToken tm + 1 \<rparr>;
         tm2 = tm1\<lparr> mPredictions_tm :=
                      map_assign assignedToken
                        \<lparr> timestamp = stampTime, predictions = aPredictions \<rparr>
                        (mPredictions_tm tm1) \<rparr>
     in (assignedToken, flushTokens flushTime tm2))"

definition getPredictionsForToken :: "int \<Rightarrow> TokenManager \<Rightarrow> TimelineItem option" where
  "getPredictionsForToken token tm =
    (case map_of (mPredictions_tm tm) token of
       Some entry \<Rightarrow> Some (predictions entry)
     | None \<Rightarrow> None)"

text \<open>
  A history of the token manager: tokens are minted and the map is flushed, in any
  order. \<open>monotonic_clock now ops\<close> says that the clock readings of the history, taken
  after \<open>now\<close>, never go back (\<open>systemTime\<close> is monotonic); the reference time of an
  explicit flush is any value. \<open>last_reading\<close> is the clock after the history.
\<close>

datatype TokenManagerCall =
  GenerateToken TimelineItem nsecs_t nsecs_t
| FlushTokens nsecs_t

fun run_TokenManager :: "TokenManagerCall list \<Rightarrow> TokenManager \<Rightarrow> TokenManager" where
  "run_TokenManager [] tm = tm"
| "run_TokenManager (GenerateToken p stampTime flushTime # ops) tm =
     run_TokenManager ops (snd (generateTokenForPredictions p stampTime flushTime tm))"
| "run_TokenManager (FlushTokens flushTime # ops) tm =
     run_TokenManager ops (flushTokens flushTime tm)"

fun monotonic_clock :: "nsecs_t \<Rightarrow> TokenManagerCall list \<Rightarrow> bool" where
  "monotonic_clock now [] = True"
| "monotonic_clock now (GenerateToken p stampTime flushTime # ops) =
     (now \<le> stampTime \<and> stampTime \<le> flushTime \<and> monotonic_clock flushTime ops)"
| "monotonic_clock now (FlushTokens flushTime # ops) = monotonic_clock now ops"

fun last_reading :: "nsecs_t \<Rightarrow> TokenManagerCall list \<Rightarrow> nsecs_t" where
  "last_reading now [] = now"
| "last_reading now (GenerateToken p stampTime flushTime # ops) = last_reading flushTime ops"
| "last_reading now (FlushTokens flushTime # ops) = last_reading now ops"

text \<open>
  The invariant of these histories: the entries are in the order of their tokens and
  of their time stamps, below the next token and not after the clock.
\<close>

definition tokens_in_time_order :: "nsecs_t \<Rightarrow> TokenManager \<Rightarrow> bool" where
  "tokens_in_time_order now tm =
    (sorted_wrt (\<lambda>a b. fst a < fst b \<and> timestamp (snd a) \<le> timestamp (snd b))
       (mPredictions_tm tm)
     \<and> (\<forall>it \<in> set (mPredictions_tm tm). fst it < mCurrentToken tm \<and> timestamp (snd it) \<le> now))"

section \<open>FrameTimeline engine\<close>

text \<open>
  A present fence is an object outside the engine, whose state changes as the hardware
  signals it. The engine keeps references to fences; each operation that polls them
  takes the state of all fences at that moment, \<open>fences\<close>, as an argument. A null
  reference is \<open>None\<close>.
\<close>

record FenceTime =
  isValid :: bool
  getSignalTime :: nsecs_t

text \<open>
  Modelled from the spec: the sentinel \<open>Fence::SIGNAL_TIME_PENDING\<close>, declared outside
  the sources at hand, is the greatest \<open>nsecs_t\<close>.
\<close>

definition SIGNAL_TIME_PENDING :: nsecs_t where
  "SIGNAL_TIME_PENDING = 2 ^ 63 - 1"

text \<open>
  Modelled from the spec: the sentinel \<open>Fence::SIGNAL_TIME_INVALID\<close>, declared outside
  the sources at hand, is \<open>-1\<close>.
\<close>

definition SIGNAL_TIME_INVALID :: nsecs_t where
  "SIGNAL_TIME_INVALID = -1"

text \<open>
  The engine shares each display frame between the deque \<open>mDisplayFrames\<close>, the list
  \<open>mPendingPresentFences\<close> and \<open>mCurrentDisplayFrame\<close>: the frames live in a store,
  \<open>displayFrames\<close>, and the three hold addresses. \<open>nextDisplayFrame\<close> is the next
  address to allocate.
\<close>

record FrameTimeline =
  mCurrentDisplayFrame :: nat
  mDisplayFrames :: "nat list"
  mPendingPresentFences :: "(nat option \<times> nat) list"
  mMaxDisplayFrames :: nat
  mTokenManager :: TokenManager
  mSurfaceFlingerPid :: int
  mJankClassificationThresholds_ft :: JankClassificationThresholds
  displayFrames :: "nat \<Rightarrow> DisplayFrame"
  nextDisplayFrame :: nat

text \<open>
  Modelled from the spec: \<open>kDefaultMaxDisplayFrames\<close>, declared in a header that is not
  part of the sources at hand, is 64.
\<close>

definition kDefaultMaxDisplayFrames :: nat where
  "kDefaultMaxDisplayFrames = 64"

definition FrameTimeline_new :: "int \<Rightarrow> JankClassificationThresholds \<Rightarrow> FrameTimeline" where
  "FrameTimeline_new surfaceFlingerPid thresholds =
    \<lparr> mCurrentDisplayFrame = 0,
      mDisplayFrames = [],
      mPendingPresentFences = [],
      mMaxDisplayFrames = kDefaultMaxDisplayFrames,
      mTokenManager = TokenManager_new,
      mSurfaceFlingerPid = surfaceFlingerPid,
      mJankClassificationThresholds_ft = thresholds,
      displayFrames = (\<lambda>_. DisplayFrame_new thresholds),
      nextDisplayFrame = 1 \<rparr>"

definition createSurfaceFrameForToken ::
  "int option \<Rightarrow> int \<Rightarrow> nat \<Rightarrow> string \<Rightarrow> string \<Rightarrow> FrameTimeline \<Rightarrow> SurfaceFrame" where
  "createSurfaceFrameForToken token ownerPid ownerUid layerName debugName ft =
    (case token of
       None \<Rightarrow>
         SurfaceFrame_new INVALID_VSYNC_ID ownerPid ownerUid layerName debugName PredictionNone
           \<lparr> startTime = 0, endTime = 0, presentTime = 0 \<rparr>
           (mJankClassificationThresholds_ft ft)
     | Some tok \<Rightarrow>
         (case getPredictionsForToken tok (mTokenManager ft) of
            Some p \<Rightarrow>
              SurfaceFrame_new tok ownerPid ownerUid layerName debugName Valid p
                (mJankClassificationThresholds_ft ft)
          | None \<Rightarrow>
              SurfaceFrame_new tok ownerPid ownerUid layerName debugName Expired
                \<lparr> startTime = 0, endTime = 0, presentTime = 0 \<rparr>
                (mJankClassificationThresholds_ft ft)))"

definition addSurfaceFrame :: "SurfaceFrame \<Rightarrow> FrameTimeline \<Rightarrow> FrameTimeline" where
  "addSurfaceFrame surfaceFrame ft =
    ft\<lparr> displayFrames := (displayFrames ft)
          (mCurrentDisplayFrame ft :=
             DisplayFrame_addSurfaceFrame surfaceFrame
               (displayFrames ft (mCurrentDisplayFrame ft))) \<rparr>"

definition setSfWakeUp :: "int \<Rightarrow> nsecs_t \<Rightarrow> nsecs_t \<Rightarrow> FrameTimeline \<Rightarrow> FrameTimeline" where
  "setSfWakeUp token wakeUpTime vsyncPeriod ft =
    ft\<lparr> displayFrames := (displayFrames ft)
          (mCurrentDisplayFrame ft :=
             onSfWakeUp token vsyncPeriod (getPredictionsForToken token (mTokenManager ft))
               wakeUpTime (displayFrames ft (mCurrentDisplayFrame ft))) \<rparr>"

text \<open>
  What \<open>flushPendingPresentFences\<close> does to display frames, in order: the calls of
  \<open>onPresent\<close> and of \<open>trace\<close>, each with the address of the frame.
\<close>

datatype FlushEvent = OnPresentCall nat nsecs_t | TraceCall nat int

text \<open>
  The loop of \<open>flushPendingPresentFences\<close>, from the entry at index \<open>i\<close> on. On a
  pending fence the loop continues with the next index and the entry stays; otherwise
  the entry is erased (and the index stepped back), after \<open>onPresent\<close> and \<open>trace\<close>
  when the signal time is not \<open>SIGNAL_TIME_INVALID\<close>. The result is what is left of
  the list from index \<open>i\<close> on, the store, the calls on display frames and the calls
  on the statistics sink.
\<close>

fun flushPendingPresentFences_loop ::
  "(nat \<Rightarrow> FenceTime) \<Rightarrow> int \<Rightarrow> (nat option \<times> nat) list \<Rightarrow> (nat \<Rightarrow> DisplayFrame)
    \<Rightarrow> fault + ((nat option \<times> nat) list \<times> (nat \<Rightarrow> DisplayFrame) \<times> FlushEvent list
                 \<times> TimeStatsCall list)" where
  "flushPendingPresentFences_loop fences pid [] store = Inr ([], store, [], [])"
| "flushPendingPresentFences_loop fences pid (pendingPresentFence # rest) store =
     (let signalTime =
            (case fst pendingPresentFence of
               None \<Rightarrow> SIGNAL_TIME_INVALID
             | Some f \<Rightarrow> if isValid (fences f) then getSignalTime (fences f)
                         else SIGNAL_TIME_INVALID);
          polled = (case fst pendingPresentFence of
                      None \<Rightarrow> False
                    | Some f \<Rightarrow> isValid (fences f))
      in
      if polled \<and> signalTime = SIGNAL_TIME_PENDING then
        (case flushPendingPresentFences_loop fences pid rest store of
           Inl e \<Rightarrow> Inl e
         | Inr (rest', store', events, calls) \<Rightarrow>
             Inr (pendingPresentFence # rest', store', events, calls))
      else if signalTime \<noteq> SIGNAL_TIME_INVALID then
        (let displayFrame = snd pendingPresentFence in
         case DisplayFrame_onPresent signalTime (store displayFrame) of
           Inl e \<Rightarrow> Inl e
         | Inr (df', calls) \<Rightarrow>
             (case flushPendingPresentFences_loop fences pid rest
                     (store(displayFrame := df')) of
                Inl e \<Rightarrow> Inl e
              | Inr (rest', store', events, calls') \<Rightarrow>
                  Inr (rest', store',
                       OnPresentCall displayFrame signalTime # TraceCall displayFrame pid # events,
                       calls @ calls')))
      else flushPendingPresentFences_loop fences pid rest store)"

definition flushPendingPresentFences ::
  "(nat \<Rightarrow> FenceTime) \<Rightarrow> FrameTimeline
    \<Rightarrow> fault + (FrameTimeline \<times> FlushEvent list \<times> TimeStatsCall list)" where
  "flushPendingPresentFences fences ft =
    (case flushPendingPresentFences_loop fences (mSurfaceFlingerPid ft)
            (mPendingPresentFences ft) (displayFrames ft) of
       Inl e \<Rightarrow> Inl e
     | Inr (pending', store', events, calls) \<Rightarrow>
         Inr (ft\<lparr> mPendingPresentFences := pending', displayFrames := store' \<rparr>, events, calls))"

text \<open>
  The loop of \<open>finalizeCurrentDisplayFrame\<close>: \<open>pop_front\<close> while the deque holds at
  least \<open>mMaxDisplayFrames\<close> frames.
\<close>

fun pop_older_frames :: "nat \<Rightarrow> nat list \<Rightarrow> fault + nat list" where
  "pop_older_frames maxDisplayFrames [] =
     (if 0 \<ge> maxDisplayFrames then Inl EmptyContainer else Inr [])"
| "pop_older_frames maxDisplayFrames (front # rest) =
     (if length (front # rest) \<ge> maxDisplayFrames
      then pop_older_frames maxDisplayFrames rest
      else Inr (front # rest))"

definition finalizeCurrentDisplayFrame :: "FrameTimeline \<Rightarrow> fault + FrameTimeline" where
  "finalizeCurrentDisplayFrame ft =
    (case pop_older_frames (mMaxDisplayFrames ft) (mDisplayFrames ft) of
       Inl e \<Rightarrow> Inl e
     | Inr frames \<Rightarrow>
         Inr (ft\<lparr> mDisplayFrames := frames @ [mCurrentDisplayFrame ft],
                  mCurrentDisplayFrame := nextDisplayFrame ft,
                  displayFrames := (displayFrames ft)
                    (nextDisplayFrame ft :=
                       DisplayFrame_new (mJankClassificationThresholds_ft ft)),
                  nextDisplayFrame := nextDisplayFrame ft + 1 \<rparr>))"

definition setSfPresent ::
  "(nat \<Rightarrow> FenceTime) \<Rightarrow> nsecs_t \<Rightarrow> nat option \<Rightarrow> FrameTimeline
    \<Rightarrow> fault + (FrameTimeline \<times> FlushEvent list \<times> TimeStatsCall list)" where
  "setSfPresent fences sfPresentTime presentFence ft =
    (let ft1 = ft\<lparr> displayFrames := (displayFrames ft)
                     (mCurrentDisplayFrame ft :=
                        setActualEndTime sfPresentTime
                          (displayFrames ft (mCurrentDisplayFrame ft))) \<rparr>;
         ft2 = ft1\<lparr> mPendingPresentFences :=
                      mPendingPresentFences ft1 @ [(presentFence, mCurrentDisplayFrame ft1)] \<rparr>
     in case flushPendingPresentFences fences ft2 of
          Inl e \<Rightarrow> Inl e
        | Inr (ft3, events, calls) \<Rightarrow>
            (case finalizeCurrentDisplayFrame ft3 of
               Inl e \<Rightarrow> Inl e
             | Inr ft4 \<Rightarrow> Inr (ft4, events, calls)))"

definition setMaxDisplayFrames :: "nat \<Rightarrow> FrameTimeline \<Rightarrow> FrameTimeline" where
  "setMaxDisplayFrames aSize ft =
    ft\<lparr> mDisplayFrames := [], mPendingPresentFences := [], mMaxDisplayFrames := aSize \<rparr>"

definition reset :: "FrameTimeline \<Rightarrow> FrameTimeline" where
  "reset ft = setMaxDisplayFrames kDefaultMaxDisplayFrames ft"

text \<open>
  What the fence of a pending entry says when it is polled: still pending, a signal
  time, or nothing to wait for (a null or invalid fence, or the invalid signal time).
\<close>

definition fence_pending :: "(nat \<Rightarrow> FenceTime) \<Rightarrow> nat option \<times> nat \<Rightarrow> bool" where
  "fence_pending fences entry =
    (case fst entry of
       None \<Rightarrow> False
     | Some f \<Rightarrow> isValid (fences f) \<and> getSignalTime (fences f) = SIGNAL_TIME_PENDING)"

definition fence_signaled :: "(nat \<Rightarrow> FenceTime) \<Rightarrow> nat option \<times> nat \<Rightarrow> bool" where
  "fence_signaled fences entry =
    (case fst entry of
       None \<Rightarrow> False
     | Some f \<Rightarrow> isValid (fences f) \<and> getSignalTime (fences f) \<noteq> SIGNAL_TIME_PENDING
                 \<and> getSignalTime (fences f) \<noteq> SIGNAL_TIME_INVALID)"

definition signal_time_of :: "(nat \<Rightarrow> FenceTime) \<Rightarrow> nat option \<times> nat \<Rightarrow> nsecs_t" where
  "signal_time_of fences entry =
    (case fst entry of
       None \<Rightarrow> SIGNAL_TIME_INVALID
     | Some f \<Rightarrow> getSignalTime (fences f))"

section \<open>RefreshRateConfigs\<close>

text \<open>
  The refresh rates, weights and scores are \<open>float\<close>s. They are values of a type \<open>'f\<close>
  here, of which the model needs the order (the comparisons \<open>>\<close>, \<open>!=\<close> of floats other
  than NaN) and zero; their arithmetic is a parameter, \<open>FloatOps\<close>, about which nothing
  is assumed: \<open>fadd\<close>, \<open>fmul\<close> and \<open>fdiv\<close> are \<open>+\<close>, \<open>*\<close> and \<open>/\<close>, \<open>float_of_int\<close> is the
  conversion of an integer, \<open>round_nsecs\<close> is \<open>round<nsecs_t>\<close>.
\<close>

record 'f FloatOps =
  fadd :: "'f \<Rightarrow> 'f \<Rightarrow> 'f"
  fmul :: "'f \<Rightarrow> 'f \<Rightarrow> 'f"
  fdiv :: "'f \<Rightarrow> 'f \<Rightarrow> 'f"
  float_of_int :: "int \<Rightarrow> 'f"
  round_nsecs :: "'f \<Rightarrow> nsecs_t"

datatype LayerVoteType =
  NoVote | MinVote | MaxVote | Heuristic | ExplicitDefault | ExplicitExactOrMultiple

record 'f LayerRequirement =
  layerName :: string
  vote :: LayerVoteType
  desiredRefreshRate :: 'f
  weight :: 'f

record 'f RefreshRate =
  configId :: int
  vsyncPeriod :: nsecs_t
  configGroup :: int
  rateName :: string
  fps :: 'f

text \<open>
  \<open>mRefreshRates\<close> is an unordered map: here the list of its entries in the order in
  which it is iterated. The lists of \<open>const RefreshRate*\<close> hold the rates themselves.
\<close>

record 'f RefreshRateConfigs =
  mRefreshRates :: "(int \<times> 'f RefreshRate) list"
  mAvailableRefreshRates :: "'f RefreshRate list"
  mCurrentRefreshRate :: "'f RefreshRate"
  mDefaultConfig :: int
  mMinRefreshRateFps :: 'f
  mMaxRefreshRateFps :: 'f
  mMinSupportedRefreshRate :: "'f RefreshRate"
  mMaxSupportedRefreshRate :: "'f RefreshRate"

datatype status_t = NO_ERROR | BAD_VALUE

text \<open>
  \<open>getSortedRefreshRateList\<close>: the rates that \<open>shouldAddRefreshRate\<close> accepts, sorted by
  \<open>std::sort\<close> with the comparison \<open>vsyncPeriod1 > vsyncPeriod2\<close>. \<open>std::sort\<close> leaves the
  order of rates of equal period open; the insertion sort here is one such order.
\<close>

definition getSortedRefreshRateList ::
  "('f RefreshRate \<Rightarrow> bool) \<Rightarrow> (int \<times> 'f RefreshRate) list \<Rightarrow> 'f RefreshRate list" where
  "getSortedRefreshRateList shouldAddRefreshRate refreshRates =
    sort_key (\<lambda>refreshRate. - vsyncPeriod refreshRate)
      (filter shouldAddRefreshRate (map snd refreshRates))"

text \<open>
  \<open>RefreshRate::inPolicy\<close> is declared in a header that is not part of the sources at
  hand: it is the parameter \<open>inPolicy\<close> of the functions that call it.
\<close>

definition constructAvailableRefreshRates ::
  "('f RefreshRate \<Rightarrow> 'f \<Rightarrow> 'f \<Rightarrow> bool) \<Rightarrow> 'f RefreshRateConfigs
    \<Rightarrow> fault + 'f RefreshRateConfigs" where
  "constructAvailableRefreshRates inPolicy st =
    (case map_of (mRefreshRates st) (mDefaultConfig st) of
       None \<Rightarrow> Inl OutOfRange
     | Some defaultRate \<Rightarrow>
         (let group = configGroup defaultRate;
              st1 = st\<lparr> mAvailableRefreshRates :=
                          getSortedRefreshRateList
                            (\<lambda>refreshRate. configGroup refreshRate = group \<and>
                               inPolicy refreshRate (mMinRefreshRateFps st) (mMaxRefreshRateFps st))
                            (mRefreshRates st) \<rparr>
          in if mAvailableRefreshRates st1 = [] then Inl FatalAbort else Inr st1))"

text \<open>
  \<open>setPolicy\<close>: the status, the value written to \<open>outPolicyChanged\<close>, and the state.
\<close>

definition setPolicy ::
  "('f RefreshRate \<Rightarrow> 'f \<Rightarrow> 'f \<Rightarrow> bool) \<Rightarrow> int \<Rightarrow> 'f \<Rightarrow> 'f \<Rightarrow> 'f RefreshRateConfigs
    \<Rightarrow> fault + (status_t \<times> bool \<times> 'f RefreshRateConfigs)" where
  "setPolicy inPolicy defaultConfigId minRefreshRate maxRefreshRate st =
    (let policyChanged = (defaultConfigId \<noteq> mDefaultConfig st \<or>
                          minRefreshRate \<noteq> mMinRefreshRateFps st \<or>
                          maxRefreshRate \<noteq> mMaxRefreshRateFps st)
     in
     if \<not> policyChanged then Inr (NO_ERROR, policyChanged, st)
     else
       (case map_of (mRefreshRates st) defaultConfigId of
          None \<Rightarrow> Inr (BAD_VALUE, policyChanged, st)
        | Some refreshRate \<Rightarrow>
            if \<not> inPolicy refreshRate minRefreshRate maxRefreshRate
            then Inr (BAD_VALUE, policyChanged, st)
            else
              (case constructAvailableRefreshRates inPolicy
                      (st\<lparr> mDefaultConfig := defaultConfigId,
                           mMinRefreshRateFps := minRefreshRate,
                           mMaxRefreshRateFps := maxRefreshRate \<rparr>) of
                 Inl e \<Rightarrow> Inl e
               | Inr st' \<Rightarrow> Inr (NO_ERROR, policyChanged, st'))))"

definition setCurrentConfigId :: "int \<Rightarrow> 'f RefreshRateConfigs \<Rightarrow> fault + 'f RefreshRateConfigs" where
  "setCurrentConfigId aConfigId st =
    (case map_of (mRefreshRates st) aConfigId of
       None \<Rightarrow> Inl OutOfRange
     | Some refreshRate \<Rightarrow> Inr (st\<lparr> mCurrentRefreshRate := refreshRate \<rparr>))"

subsection \<open>The content-v2 selector\<close>

definition MARGIN :: nsecs_t where
  "MARGIN = 800000"

definition MAX_FRAMES_TO_FIT :: int where
  "MAX_FRAMES_TO_FIT = 10"

text \<open>The cadence loop: \<open>iter\<close> when the loop ends.\<close>

function fit_cadence :: "nsecs_t \<Rightarrow> nsecs_t \<Rightarrow> int \<Rightarrow> int" where
  "fit_cadence displayPeriod diff iter =
     (if diff > MARGIN \<and> iter < MAX_FRAMES_TO_FIT
      then fit_cadence displayPeriod (diff - (displayPeriod - diff)) (iter + 1)
      else iter)"
  by pat_completeness auto
termination
  by (relation "measure (\<lambda>(displayPeriod, diff, iter). nat (MAX_FRAMES_TO_FIT - iter))") auto

text \<open>The score of one layer for one display period; \<open>std::div\<close> truncates.\<close>

definition layerScore :: "'f FloatOps \<Rightarrow> 'f \<Rightarrow> nsecs_t \<Rightarrow> nsecs_t \<Rightarrow> fault + 'f" where
  "layerScore ops aWeight layerPeriod displayPeriod =
    (if displayPeriod = 0 then Inl DivideByZero
     else
       let quot0 = layerPeriod sdiv displayPeriod;
           rem0 = layerPeriod smod displayPeriod;
           aligned = (rem0 \<le> MARGIN \<or> \<bar>rem0 - displayPeriod\<bar> \<le> MARGIN);
           displayFramesQuot = (if aligned then quot0 + 1 else quot0);
           displayFramesRem = (if aligned then 0 else rem0)
       in
       if displayFramesRem = 0 then Inr (fmul ops aWeight (float_of_int ops 1))
       else if displayFramesQuot = 0 then
         Inr (fmul ops
                (fmul ops aWeight
                   (fdiv ops (float_of_int ops layerPeriod) (float_of_int ops displayPeriod)))
                (fdiv ops (float_of_int ops 1) (float_of_int ops (MAX_FRAMES_TO_FIT + 1))))
       else
         (let diff = \<bar>displayFramesRem - (displayPeriod - displayFramesRem)\<bar>;
              iter = fit_cadence displayPeriod diff 2
          in Inr (fmul ops aWeight (fdiv ops (float_of_int ops 1) (float_of_int ops iter)))))"

text \<open>The inner loop: the score of one layer is added to the score of every rate.\<close>

fun addLayerScore ::
  "'f FloatOps \<Rightarrow> 'f \<Rightarrow> nsecs_t \<Rightarrow> ('f RefreshRate \<times> 'f) list
    \<Rightarrow> fault + ('f RefreshRate \<times> 'f) list" where
  "addLayerScore ops aWeight layerPeriod [] = Inr []"
| "addLayerScore ops aWeight layerPeriod ((refreshRate, overallScore) # rest) =
     (case layerScore ops aWeight layerPeriod (vsyncPeriod refreshRate) of
        Inl e \<Rightarrow> Inl e
      | Inr aLayerScore \<Rightarrow>
          (case addLayerScore ops aWeight layerPeriod rest of
             Inl e \<Rightarrow> Inl e
           | Inr rest' \<Rightarrow> Inr ((refreshRate, fadd ops overallScore aLayerScore) # rest')))"

text \<open>The outer loop, over the layers, with the two counts of explicit votes.\<close>

fun scoreLayers ::
  "'f FloatOps \<Rightarrow> nat \<Rightarrow> nat \<Rightarrow> 'f LayerRequirement list \<Rightarrow> ('f RefreshRate \<times> 'f) list
    \<Rightarrow> fault + ('f RefreshRate \<times> 'f) list" where
  "scoreLayers ops explicitDefaultVoteLayers explicitExactOrMultipleVoteLayers [] scores =
     Inr scores"
| "scoreLayers ops explicitDefaultVoteLayers explicitExactOrMultipleVoteLayers (layer # layers)
     scores =
     (if vote layer = NoVote \<or> vote layer = MinVote \<or> vote layer = MaxVote
      then scoreLayers ops explicitDefaultVoteLayers explicitExactOrMultipleVoteLayers layers
             scores
      else
        let weight0 = weight layer;
            weight1 = (if explicitExactOrMultipleVoteLayers + explicitDefaultVoteLayers > 0
                          \<and> vote layer = Heuristic
                       then fdiv ops weight0 (float_of_int ops 2) else weight0);
            weight2 = (if explicitExactOrMultipleVoteLayers > 0
                          \<and> (vote layer = Heuristic \<or> vote layer = ExplicitDefault)
                       then fdiv ops weight1 (float_of_int ops 2) else weight1);
            layerPeriod = round_nsecs ops
                            (fdiv ops (float_of_int ops 1000000000) (desiredRefreshRate layer))
        in case addLayerScore ops weight2 layerPeriod scores of
             Inl e \<Rightarrow> Inl e
           | Inr scores' \<Rightarrow>
               scoreLayers ops explicitDefaultVoteLayers explicitExactOrMultipleVoteLayers
                 layers scores')"

text \<open>The last loop: the best rate so far, \<open>None\<close> for \<open>nullptr\<close>.\<close>

fun bestRefreshRate_loop ::
  "('f::linorder RefreshRate \<times> 'f) list \<Rightarrow> 'f \<Rightarrow> 'f RefreshRate option
    \<Rightarrow> 'f RefreshRate option" where
  "bestRefreshRate_loop [] aMax bestRefreshRate = bestRefreshRate"
| "bestRefreshRate_loop ((refreshRate, score) # rest) aMax bestRefreshRate =
     (if score > aMax then bestRefreshRate_loop rest score (Some refreshRate)
      else bestRefreshRate_loop rest aMax bestRefreshRate)"

definition count_votes :: "LayerVoteType \<Rightarrow> 'f LayerRequirement list \<Rightarrow> nat" where
  "count_votes v layers = length (filter (\<lambda>layer. vote layer = v) layers)"

definition getRefreshRateForContentV2 ::
  "'f FloatOps \<Rightarrow> ('f::{linorder,zero}) LayerRequirement list \<Rightarrow> 'f RefreshRateConfigs
    \<Rightarrow> fault + 'f RefreshRate" where
  "getRefreshRateForContentV2 ops layers st =
    (let noVoteLayers = count_votes NoVote layers;
         minVoteLayers = count_votes MinVote layers;
         maxVoteLayers = count_votes MaxVote layers;
         explicitDefaultVoteLayers = count_votes ExplicitDefault layers;
         explicitExactOrMultipleVoteLayers = count_votes ExplicitExactOrMultiple layers
     in
     if noVoteLayers + minVoteLayers = length layers then
       (case mAvailableRefreshRates st of
          [] \<Rightarrow> Inl EmptyContainer
        | front # _ \<Rightarrow> Inr front)
     else if maxVoteLayers > 0 \<and> explicitDefaultVoteLayers + explicitExactOrMultipleVoteLayers = 0
     then
       (if mAvailableRefreshRates st = [] then Inl EmptyContainer
        else Inr (last (mAvailableRefreshRates st)))
     else
       (case scoreLayers ops explicitDefaultVoteLayers explicitExactOrMultipleVoteLayers layers
               (map (\<lambda>refreshRate. (refreshRate, 0)) (mAvailableRefreshRates st)) of
          Inl e \<Rightarrow> Inl e
        | Inr scores \<Rightarrow>
            (case bestRefreshRate_loop scores 0 None of
               None \<Rightarrow> Inr (mCurrentRefreshRate st)
             | Some bestRefreshRate \<Rightarrow> Inr bestRefreshRate)))"

text \<open>
  The overall scores with which the last loop of the selector runs, and whether the
  selector reaches its scoring phase (neither early return is taken).
\<close>

definition overallScores ::
  "'f FloatOps \<Rightarrow> ('f::zero) LayerRequirement list \<Rightarrow> 'f RefreshRateConfigs
    \<Rightarrow> fault + ('f RefreshRate \<times> 'f) list" where
  "overallScores ops layers st =
    scoreLayers ops (count_votes ExplicitDefault layers)
      (count_votes ExplicitExactOrMultiple layers) layers
      (map (\<lambda>refreshRate. (refreshRate, 0)) (mAvailableRefreshRates st))"

definition reaches_scoring :: "'f LayerRequirement list \<Rightarrow> bool" where
  "reaches_scoring layers =
    (count_votes NoVote layers + count_votes MinVote layers \<noteq> length layers
     \<and> \<not> (count_votes MaxVote layers > 0
          \<and> count_votes ExplicitDefault layers + count_votes ExplicitExactOrMultiple layers = 0))"

section \<open>Example inputs\<close>

text \<open>
  Concrete frames and histories on which the theorems below are instantiated. The
  thresholds are the defaults of the tests: 2 ms for the present time, none for the
  deadline.
\<close>

definition example_thresholds :: JankClassificationThresholds where
  "example_thresholds =
    \<lparr> presentThreshold = 2000000, deadlineThreshold = 0, startThreshold = 2000000 \<rparr>"

definition late_app_frame :: SurfaceFrame where
  "late_app_frame =
    setPresentState Presented 0
      (setAcquireFenceTime 45000000
        (SurfaceFrame_new 1 10 0 ''layer1'' ''layer1'' Valid
          \<lparr> startTime = 10000000, endTime = 20000000, presentTime = 40000000 \<rparr>
          example_thresholds))"

definition on_time_display_frame :: DisplayFrame where
  "on_time_display_frame =
    setActualEndTime 56000000
      (DisplayFrame_addSurfaceFrame late_app_frame
        (onSfWakeUp 2 11000000
          (Some \<lparr> startTime = 52000000, endTime = 56000000, presentTime = 60000000 \<rparr>)
          52000000 (DisplayFrame_new example_thresholds)))"

definition late_cpu_display_frame :: DisplayFrame where
  "late_cpu_display_frame =
    setActualEndTime 59000000
      (DisplayFrame_addSurfaceFrame
        (setPresentState Presented 0
          (SurfaceFrame_new 1 10 0 ''layer1'' ''layer1'' Valid
            \<lparr> startTime = 10000000, endTime = 20000000, presentTime = 60000000 \<rparr>
            example_thresholds))
        (onSfWakeUp 2 11000000
          (Some \<lparr> startTime = 52000000, endTime = 56000000, presentTime = 60000000 \<rparr>)
          52000000 (DisplayFrame_new example_thresholds)))"

definition stuffed_on_time_frame :: SurfaceFrame where
  "stuffed_on_time_frame =
    setPresentState Presented 25000000
      (SurfaceFrame_new 1 10 0 ''layer1'' ''layer1'' Valid
        \<lparr> startTime = 10000000, endTime = 20000000, presentTime = 60000000 \<rparr>
        example_thresholds)"

definition stuffed_late_frame :: SurfaceFrame where
  "stuffed_late_frame =
    setPresentState Presented 25000000
      (SurfaceFrame_new 1 10 0 ''layer1'' ''layer1'' Valid
        \<lparr> startTime = 10000000, endTime = 20000000, presentTime = 40000000 \<rparr>
        example_thresholds)"

definition dropped_frame :: SurfaceFrame where
  "dropped_frame =
    setPresentState Dropped 0
      (SurfaceFrame_new 1 10 0 ''layer1'' ''layer1'' Valid
        \<lparr> startTime = 10, endTime = 20, presentTime = 30 \<rparr>
        example_thresholds)"

definition dropped_display_frame :: DisplayFrame where
  "dropped_display_frame =
    setActualEndTime 25
      (DisplayFrame_addSurfaceFrame dropped_frame
        (onSfWakeUp 2 11000000
          (Some \<lparr> startTime = 22, endTime = 26, presentTime = 30 \<rparr>)
          20 (DisplayFrame_new example_thresholds)))"

definition two_tokens :: "TokenManagerCall list" where
  "two_tokens =
    [GenerateToken \<lparr> startTime = 0, endTime = 0, presentTime = 0 \<rparr> 0 0,
     GenerateToken \<lparr> startTime = 10, endTime = 20, presentTime = 30 \<rparr> 100000000 100000000]"

definition all_fences_pending :: "nat \<Rightarrow> FenceTime" where
  "all_fences_pending = (\<lambda>_. \<lparr> isValid = True, getSignalTime = SIGNAL_TIME_PENDING \<rparr>)"

definition second_fence_signaled :: "nat \<Rightarrow> FenceTime" where
  "second_fence_signaled =
    all_fences_pending(1 := \<lparr> isValid = True, getSignalTime = 60000000 \<rparr>)"

definition first_cycle ::
  "fault + (FrameTimeline \<times> FlushEvent list \<times> TimeStatsCall list)" where
  "first_cycle =
    setSfPresent all_fences_pending 25000000 (Some 0)
      (setSfWakeUp 5 20000000 11000000 (FrameTimeline_new 0 example_thresholds))"

definition second_cycle ::
  "fault + (FrameTimeline \<times> FlushEvent list \<times> TimeStatsCall list)" where
  "second_cycle =
    setSfPresent second_fence_signaled 55000000 (Some 1)
      (setSfWakeUp 6 50000000 11000000 (fst (projr first_cycle)))"

text \<open>
  A first cycle without \<open>setSfWakeUp\<close>, as \<open>addEmptyDisplayFrame\<close> of the tests runs it:
  the vsync period of its display frame is still 0. \<open>before_second_flush\<close> is the
  engine inside the second \<open>setSfPresent\<close> after it, when the flush starts.
\<close>

definition unwoken_cycle ::
  "fault + (FrameTimeline \<times> FlushEvent list \<times> TimeStatsCall list)" where
  "unwoken_cycle =
    setSfPresent all_fences_pending 2500 (Some 0) (FrameTimeline_new 0 example_thresholds)"

definition before_second_flush :: FrameTimeline where
  "before_second_flush =
    (let ft = setSfWakeUp 6 50000000 11000000 (fst (projr unwoken_cycle));
         ft1 = ft\<lparr> displayFrames := (displayFrames ft)
                     (mCurrentDisplayFrame ft :=
                        setActualEndTime 55000000
                          (displayFrames ft (mCurrentDisplayFrame ft))) \<rparr>
     in ft1\<lparr> mPendingPresentFences :=
                mPendingPresentFences ft1 @ [(Some 1, mCurrentDisplayFrame ft1)] \<rparr>)"

definition early_signal_frame :: DisplayFrame where
  "early_signal_frame =
    fst (projr (DisplayFrame_onPresent 2
      (setActualEndTime 27
        (onSfWakeUp 1 11000000
          (Some \<lparr> startTime = 22, endTime = 26, presentTime = 30 \<rparr>)
          22 (DisplayFrame_new example_thresholds)))))"

definition tokenless_presented_frame :: SurfaceFrame where
  "tokenless_presented_frame =
    fst (projr (SurfaceFrame_onPresent 42 JankType_None 11000000
      (setPresentState Presented 0
        (SurfaceFrame_new INVALID_VSYNC_ID 10 0 ''layer1'' ''layer1'' PredictionNone
          \<lparr> startTime = 0, endTime = 0, presentTime = 0 \<rparr> example_thresholds))))"

text \<open>
  A fixed-point stand-in for the float arithmetic (three decimals), two rates of one
  group, 60 Hz and 90 Hz, with every rate available, and one layer that votes for
  45 fps.
\<close>

definition fixed_point_ops :: "int FloatOps" where
  "fixed_point_ops =
    \<lparr> fadd = (\<lambda>a b. a + b),
      fmul = (\<lambda>a b. a * b div 1000),
      fdiv = (\<lambda>a b. a * 1000 div b),
      float_of_int = (\<lambda>n. 1000 * n),
      round_nsecs = (\<lambda>x. (x + 500) div 1000) \<rparr>"

definition rate_60 :: "int RefreshRate" where
  "rate_60 = \<lparr> configId = 0, vsyncPeriod = 16666667, configGroup = 0,
               rateName = ''60fps'', fps = 60000 \<rparr>"

definition rate_90 :: "int RefreshRate" where
  "rate_90 = \<lparr> configId = 1, vsyncPeriod = 11111111, configGroup = 0,
               rateName = ''90fps'', fps = 90000 \<rparr>"

definition two_rates :: "int RefreshRateConfigs" where
  "two_rates =
    \<lparr> mRefreshRates = [(1, rate_90), (0, rate_60)],
      mAvailableRefreshRates = getSortedRefreshRateList (\<lambda>_. True) [(1, rate_90), (0, rate_60)],
      mCurrentRefreshRate = rate_60,
      mDefaultConfig = 0,
      mMinRefreshRateFps = 0,
      mMaxRefreshRateFps = 90000,
      mMinSupportedRefreshRate = rate_60,
      mMaxSupportedRefreshRate = rate_90 \<rparr>"

definition layer_45 :: "int LayerRequirement" where
  "layer_45 = \<lparr> layerName = ''layer1'', vote = Heuristic, desiredRefreshRate = 45000,
                weight = 1000 \<rparr>"

definition fps_in_range :: "int RefreshRate \<Rightarrow> int \<Rightarrow> int \<Rightarrow> bool" where
  "fps_in_range refreshRate minRefreshRate maxRefreshRate =
    (minRefreshRate \<le> fps refreshRate \<and> fps refreshRate \<le> maxRefreshRate)"

section \<open>SurfaceFrame: end time and unpresented frames\<close>

lemmas JankType_defs =
  JankType_None_def JankType_DisplayHAL_def JankType_SurfaceFlingerCpuDeadlineMissed_def
  JankType_SurfaceFlingerGpuDeadlineMissed_def JankType_AppDeadlineMissed_def
  JankType_PredictionError_def JankType_SurfaceFlingerScheduling_def
  JankType_BufferStuffing_def JankType_Unknown_def

lemmas example_defs = example_thresholds_def late_app_frame_def on_time_display_frame_def
  late_cpu_display_frame_def dropped_display_frame_def
  stuffed_on_time_frame_def stuffed_late_frame_def dropped_frame_def
  setPresentState_def setAcquireFenceTime_def SurfaceFrame_new_def setActualEndTime_def
  DisplayFrame_addSurfaceFrame_def onSfWakeUp_def DisplayFrame_new_def

text \<open>
  C4 (as the code has it). When the queue time is written first and the acquire fence
  time second, the end time of the frame is the later of the two. Only
  \<open>setAcquireFenceTime\<close> writes the end time.
\<close>

theorem setActualQueueTime_then_setAcquireFenceTime:
  "endTime (mActuals (setAcquireFenceTime b (setActualQueueTime a sf))) = max a b"
  by (simp add: setAcquireFenceTime_def setActualQueueTime_def max.commute)

text \<open>
  C4 (as stated) fails for the other order: on a newly constructed frame, the acquire
  fence time 123 followed by the queue time 456 leaves the end time at 123.
\<close>

theorem setAcquireFenceTime_then_setActualQueueTime_counterexample:
  "endTime (mActuals (setActualQueueTime 456 (setAcquireFenceTime 123
      (SurfaceFrame_new (-1) 10 0 ''layer1'' ''layer1'' PredictionNone
         \<lparr> startTime = 0, endTime = 0, presentTime = 0 \<rparr> example_thresholds)))) = 123
   \<and> max (456 :: nsecs_t) 123 = 456"
  by (simp add: setAcquireFenceTime_def setActualQueueTime_def SurfaceFrame_new_def)

section \<open>Classification\<close>

lemma SurfaceFrame_onPresent_returns:
  "period \<noteq> 0 \<Longrightarrow> \<exists>sf' calls. SurfaceFrame_onPresent t j period sf = Inr (sf', calls)"
  by (simp add: SurfaceFrame_onPresent_def Let_def)

lemma SurfaceFrame_onPresent_calls:
  "SurfaceFrame_onPresent t j period sf = Inr (sf', calls) \<Longrightarrow> filter isDisplayFrameCall calls = []"
  by (auto simp add: SurfaceFrame_onPresent_def Let_def isDisplayFrameCall_def split: if_splits)

lemma SurfaceFrame_onPresent_valid:
  "mPresentState sf = Presented \<Longrightarrow> mPredictionState sf = Valid \<Longrightarrow> period \<noteq> 0 \<Longrightarrow>
   SurfaceFrame_onPresent t j period sf =
     (let sf3 = SurfaceFrame_classify j period
                  (sf\<lparr> mActuals := (mActuals sf)\<lparr> presentTime := t \<rparr> \<rparr>)
      in Inr (sf3, [IncrementJankyFramesLayer (mOwnerUid sf3) (mLayerName sf3) (mJankType sf3)]))"
  by (simp add: SurfaceFrame_onPresent_def Let_def)

lemma onPresent_surfaceFrames_result:
  "period \<noteq> 0 \<Longrightarrow>
    \<exists>sfs' calls. onPresent_surfaceFrames t j period sfs tot =
        Inr (sfs', foldl (OR) tot (map mJankType (filter (\<lambda>sf. presentTime (mActuals sf) \<noteq> 0) sfs')), calls)
      \<and> filter isDisplayFrameCall calls = []
      \<and> list_all2 (\<lambda>sf sf'. \<exists>c. SurfaceFrame_onPresent t j period sf = Inr (sf', c)) sfs sfs'"
proof (induction sfs arbitrary: tot)
  case Nil
  then show ?case by simp
next
  case (Cons sf sfs)
  from Cons.prems obtain sf' c where h: "SurfaceFrame_onPresent t j period sf = Inr (sf', c)"
    using SurfaceFrame_onPresent_returns by blast
  have c: "filter isDisplayFrameCall c = []" using h by (rule SurfaceFrame_onPresent_calls)
  show ?case
  proof (cases "presentTime (mActuals sf') = 0")
    case True
    from Cons.IH [OF Cons.prems, of tot] obtain sfs' calls where
      r: "onPresent_surfaceFrames t j period sfs tot =
        Inr (sfs', foldl (OR) tot (map mJankType (filter (\<lambda>sf. presentTime (mActuals sf) \<noteq> 0) sfs')), calls)"
      and f: "filter isDisplayFrameCall calls = []"
      and l: "list_all2 (\<lambda>sf sf'. \<exists>c. SurfaceFrame_onPresent t j period sf = Inr (sf', c)) sfs sfs'"
      by blast
    show ?thesis using h c r f l True
      by (simp add: SurfaceFrame_getJankType_def)
  next
    case False
    from Cons.IH [OF Cons.prems, of "tot OR mJankType sf'"] obtain sfs' calls where
      r: "onPresent_surfaceFrames t j period sfs (tot OR mJankType sf') =
        Inr (sfs', foldl (OR) (tot OR mJankType sf') (map mJankType (filter (\<lambda>sf. presentTime (mActuals sf) \<noteq> 0) sfs')), calls)"
      and f: "filter isDisplayFrameCall calls = []"
      and l: "list_all2 (\<lambda>sf sf'. \<exists>c. SurfaceFrame_onPresent t j period sf = Inr (sf', c)) sfs sfs'"
      by blast
    show ?thesis using h c r f l False
      by (simp add: SurfaceFrame_getJankType_def)
  qed
qed

lemma DisplayFrame_classify_fields:
  "mVsyncPeriod (DisplayFrame_classify df) = mVsyncPeriod df"
  "mSurfaceFrames (DisplayFrame_classify df) = mSurfaceFrames df"
  "mSurfaceFlingerPredictions (DisplayFrame_classify df) = mSurfaceFlingerPredictions df"
  "mSurfaceFlingerActuals (DisplayFrame_classify df) = mSurfaceFlingerActuals df"
  "mJankClassificationThresholds_df (DisplayFrame_classify df) = mJankClassificationThresholds_df df"
  by (simp_all add: DisplayFrame_classify_def Let_def)

lemma DisplayFrame_classify_table:
  "mJankType_df df = JankType_None \<Longrightarrow>
   mJankType_df (DisplayFrame_classify df) =
     table_4_3 (mFramePresentMetadata_df (DisplayFrame_classify df))
       (mFrameReadyMetadata_df (DisplayFrame_classify df))
       (near_vsync (presentTime (mSurfaceFlingerActuals df) - presentTime (mSurfaceFlingerPredictions df))
          (mVsyncPeriod df) (presentThreshold (mJankClassificationThresholds_df df)))"
  by (simp add: DisplayFrame_classify_def Let_def near_vsync_def)

lemma DisplayFrame_classify_metadata:
  "mFramePresentMetadata_df (DisplayFrame_classify df) \<noteq> UnknownPresent"
  "mFrameReadyMetadata_df (DisplayFrame_classify df) \<noteq> UnknownFinish"
  by (simp_all add: DisplayFrame_classify_def Let_def)

lemma SurfaceFrame_classify_table:
  "mJankType sf = JankType_None \<Longrightarrow>
   Some (mJankType (SurfaceFrame_classify parent period sf)) =
     map_option (\<lambda>j. j OR (if buffer_stuffed sf \<and> mFramePresentMetadata (SurfaceFrame_classify parent period sf) = LatePresent
                           then JankType_BufferStuffing else 0))
       (table_4_2 (mFramePresentMetadata (SurfaceFrame_classify parent period sf))
          (mFrameReadyMetadata (SurfaceFrame_classify parent period sf))
          (near_vsync (presentTime (mActuals sf) - presentTime (mPredictions sf)) period
             (presentThreshold (mJankClassificationThresholds sf)))
          parent)"
  by (simp add: SurfaceFrame_classify_def Let_def near_vsync_def buffer_stuffed_def JankType_None_def
       or.commute)

lemma DisplayFrame_onPresent_unfold:
  assumes "mVsyncPeriod df \<noteq> 0"
  shows "\<exists>sfs' calls.
     DisplayFrame_onPresent t df =
       Inr ((DisplayFrame_classify (df\<lparr> mSurfaceFlingerActuals :=
               (mSurfaceFlingerActuals df)\<lparr> presentTime := t \<rparr> \<rparr>))\<lparr> mSurfaceFrames := sfs' \<rparr>,
            calls @ [IncrementJankyFrames
              (foldl (OR) (mJankType_df (DisplayFrame_classify (df\<lparr> mSurfaceFlingerActuals :=
                   (mSurfaceFlingerActuals df)\<lparr> presentTime := t \<rparr> \<rparr>)))
                 (map mJankType (filter (\<lambda>sf. presentTime (mActuals sf) \<noteq> 0) sfs')))])
     \<and> filter isDisplayFrameCall calls = []
     \<and> list_all2 (\<lambda>sf sf'. \<exists>c. SurfaceFrame_onPresent t
            (mJankType_df (DisplayFrame_classify (df\<lparr> mSurfaceFlingerActuals :=
                   (mSurfaceFlingerActuals df)\<lparr> presentTime := t \<rparr> \<rparr>)))
            (mVsyncPeriod df) sf = Inr (sf', c)) (mSurfaceFrames df) sfs'"
proof -
  let ?df1 = "df\<lparr> mSurfaceFlingerActuals := (mSurfaceFlingerActuals df)\<lparr> presentTime := t \<rparr> \<rparr>"
  let ?df5 = "DisplayFrame_classify ?df1"
  from onPresent_surfaceFrames_result [OF assms, of t "mJankType_df ?df5" "mSurfaceFrames df" "mJankType_df ?df5"]
  obtain sfs' calls where
    r: "onPresent_surfaceFrames t (mJankType_df ?df5) (mVsyncPeriod df) (mSurfaceFrames df) (mJankType_df ?df5) =
        Inr (sfs', foldl (OR) (mJankType_df ?df5) (map mJankType (filter (\<lambda>sf. presentTime (mActuals sf) \<noteq> 0) sfs')), calls)"
    and f: "filter isDisplayFrameCall calls = []"
    and l: "list_all2 (\<lambda>sf sf'. \<exists>c. SurfaceFrame_onPresent t (mJankType_df ?df5) (mVsyncPeriod df) sf = Inr (sf', c)) (mSurfaceFrames df) sfs'"
    by blast
  have "DisplayFrame_onPresent t df =
       Inr (?df5\<lparr> mSurfaceFrames := sfs' \<rparr>,
            calls @ [IncrementJankyFrames
              (foldl (OR) (mJankType_df ?df5)
                 (map mJankType (filter (\<lambda>sf. presentTime (mActuals sf) \<noteq> 0) sfs')))])"
    using assms r
    by (simp add: DisplayFrame_onPresent_def Let_def DisplayFrame_classify_fields JankType_None_def)
  with f l show ?thesis by blast
qed

text \<open>
  C6. On a frame that is not in state \<open>Presented\<close>, \<open>onPresent\<close> returns at once: the
  frame is left exactly as it was (so its present time, jank type and metadata keep
  their values) and the statistics sink is not called. Hence the reconciliation of a
  display frame leaves every such surface frame of the display frame as it was.
\<close>

theorem SurfaceFrame_onPresent_not_presented:
  "(mPresentState sf \<noteq> Presented \<longrightarrow>
      SurfaceFrame_onPresent t parentJank period sf = Inr (sf, []))
   \<and> (mVsyncPeriod df \<noteq> 0 \<longrightarrow>
        (\<exists>df' calls. DisplayFrame_onPresent signalTime df = Inr (df', calls)
           \<and> list_all2 (\<lambda>sf sf'. mPresentState sf \<noteq> Presented \<longrightarrow> sf' = sf)
                (mSurfaceFrames df) (mSurfaceFrames df')))"
proof (intro conjI impI)
  assume "mPresentState sf \<noteq> Presented"
  then show "SurfaceFrame_onPresent t parentJank period sf = Inr (sf, [])"
    by (simp add: SurfaceFrame_onPresent_def)
next
  let ?df5 = "DisplayFrame_classify (df\<lparr> mSurfaceFlingerActuals :=
               (mSurfaceFlingerActuals df)\<lparr> presentTime := signalTime \<rparr> \<rparr>)"
  assume "mVsyncPeriod df \<noteq> 0"
  from DisplayFrame_onPresent_unfold [OF this, of signalTime] obtain sfs' calls where
    r: "DisplayFrame_onPresent signalTime df =
       Inr (?df5\<lparr> mSurfaceFrames := sfs' \<rparr>,
            calls @ [IncrementJankyFrames
              (foldl (OR) (mJankType_df ?df5)
                 (map mJankType (filter (\<lambda>sf. presentTime (mActuals sf) \<noteq> 0) sfs')))])"
    and l: "list_all2 (\<lambda>sf sf'. \<exists>c. SurfaceFrame_onPresent signalTime (mJankType_df ?df5)
            (mVsyncPeriod df) sf = Inr (sf', c)) (mSurfaceFrames df) sfs'"
    by blast
  have "list_all2 (\<lambda>sf sf'. mPresentState sf \<noteq> Presented \<longrightarrow> sf' = sf)
          (mSurfaceFrames df) sfs'"
    using l
  proof (rule list_all2_mono)
    fix sf sf'
    assume "\<exists>c. SurfaceFrame_onPresent signalTime (mJankType_df ?df5) (mVsyncPeriod df) sf
                  = Inr (sf', c)"
    then show "mPresentState sf \<noteq> Presented \<longrightarrow> sf' = sf"
      by (auto simp add: SurfaceFrame_onPresent_def)
  qed
  then show "\<exists>df' calls. DisplayFrame_onPresent signalTime df = Inr (df', calls)
           \<and> list_all2 (\<lambda>sf sf'. mPresentState sf \<noteq> Presented \<longrightarrow> sf' = sf)
                (mSurfaceFrames df) (mSurfaceFrames df')"
    unfolding r by simp
qed

theorem SurfaceFrame_onPresent_not_presented_witness:
  "mPresentState dropped_frame \<noteq> Presented
   \<and> SurfaceFrame_onPresent 30 JankType_None 11000000 dropped_frame = Inr (dropped_frame, [])
   \<and> presentTime (mActuals dropped_frame) = 0
   \<and> mVsyncPeriod dropped_display_frame \<noteq> 0
   \<and> mSurfaceFrames dropped_display_frame = [dropped_frame]
   \<and> (\<exists>df' calls. DisplayFrame_onPresent 30 dropped_display_frame = Inr (df', calls)
         \<and> mSurfaceFrames df' = [dropped_frame])"
proof -
  have h: "mPresentState dropped_frame \<noteq> Presented"
    and v: "mVsyncPeriod dropped_display_frame \<noteq> 0"
    and s: "mSurfaceFrames dropped_display_frame = [dropped_frame]"
    and p: "presentTime (mActuals dropped_frame) = 0"
    by (simp_all add: example_defs)
  note inst = SurfaceFrame_onPresent_not_presented
    [of dropped_frame 30 JankType_None 11000000 dropped_display_frame 30]
  from inst h have a: "SurfaceFrame_onPresent 30 JankType_None 11000000 dropped_frame
      = Inr (dropped_frame, [])"
    by blast
  from inst v obtain df' calls where
    r: "DisplayFrame_onPresent 30 dropped_display_frame = Inr (df', calls)"
    and l: "list_all2 (\<lambda>sf sf'. mPresentState sf \<noteq> Presented \<longrightarrow> sf' = sf)
                (mSurfaceFrames dropped_display_frame) (mSurfaceFrames df')"
    by blast
  from l h have "mSurfaceFrames df' = [dropped_frame]"
    unfolding s by (auto simp add: list_all2_Cons1)
  with r have b: "\<exists>df' calls. DisplayFrame_onPresent 30 dropped_display_frame = Inr (df', calls)
         \<and> mSurfaceFrames df' = [dropped_frame]"
    by blast
  from h a p v s b show ?thesis by (intro conjI)
qed

text \<open>
  C10. A call of \<open>DisplayFrame::onPresent\<close> on a frame with a nonzero vsync period
  returns, and among the calls it makes on the statistics sink exactly one is to the
  one-argument \<open>incrementJankyFrames\<close>. Its argument is the jank type of the display
  frame joined by \<open>|\<close> with the jank type of every surface frame of the frame whose
  present time is nonzero once classified.
\<close>

theorem DisplayFrame_onPresent_one_total_call:
  assumes "mVsyncPeriod df \<noteq> 0"
  shows "\<exists>df' calls. DisplayFrame_onPresent t df = Inr (df', calls)
     \<and> filter isDisplayFrameCall calls =
         [IncrementJankyFrames
            (foldl (OR) (mJankType_df df')
               (map mJankType (filter (\<lambda>sf. presentTime (mActuals sf) \<noteq> 0) (mSurfaceFrames df'))))]"
proof -
  from DisplayFrame_onPresent_unfold [OF assms, of t] obtain sfs' calls where
    r: "DisplayFrame_onPresent t df =
       Inr ((DisplayFrame_classify (df\<lparr> mSurfaceFlingerActuals :=
               (mSurfaceFlingerActuals df)\<lparr> presentTime := t \<rparr> \<rparr>))\<lparr> mSurfaceFrames := sfs' \<rparr>,
            calls @ [IncrementJankyFrames
              (foldl (OR) (mJankType_df (DisplayFrame_classify (df\<lparr> mSurfaceFlingerActuals :=
                   (mSurfaceFlingerActuals df)\<lparr> presentTime := t \<rparr> \<rparr>)))
                 (map mJankType (filter (\<lambda>sf. presentTime (mActuals sf) \<noteq> 0) sfs')))])"
    and f: "filter isDisplayFrameCall calls = []"
    by blast
  show ?thesis
    unfolding r using f by (simp add: isDisplayFrameCall_def)
qed

theorem DisplayFrame_onPresent_one_total_call_witness:
  "mVsyncPeriod on_time_display_frame \<noteq> 0
   \<and> (\<exists>df' calls. DisplayFrame_onPresent 61000000 on_time_display_frame = Inr (df', calls)
        \<and> filter isDisplayFrameCall calls = [IncrementJankyFrames JankType_AppDeadlineMissed])"
proof -
  have h: "mVsyncPeriod on_time_display_frame \<noteq> 0"
    by (simp add: example_defs)
  from DisplayFrame_onPresent_one_total_call [OF h, of 61000000]
  obtain df' calls where
    r: "DisplayFrame_onPresent 61000000 on_time_display_frame = Inr (df', calls)"
    and c: "filter isDisplayFrameCall calls =
         [IncrementJankyFrames
            (foldl (OR) (mJankType_df df')
               (map mJankType (filter (\<lambda>sf. presentTime (mActuals sf) \<noteq> 0) (mSurfaceFrames df'))))]"
    by (elim exE conjE)
  have e: "foldl (OR) (mJankType_df df')
               (map mJankType (filter (\<lambda>sf. presentTime (mActuals sf) \<noteq> 0) (mSurfaceFrames df')))
      = JankType_AppDeadlineMissed"
    using r
    by (auto simp add: example_defs DisplayFrame_onPresent_def DisplayFrame_classify_def Let_def
        SurfaceFrame_onPresent_def SurfaceFrame_classify_def SurfaceFrame_getJankType_def
        JankType_defs)
  show ?thesis
    using h r c e by auto
qed

text \<open>
  Until it is reconciled a frame has the jank type \<open>None\<close> of its constructor: no
  operation of its producers writes \<open>mJankType\<close>.
\<close>

lemma unreconciled_frames_have_no_jank:
  "mJankType_df (DisplayFrame_new thresholds) = JankType_None"
  "mJankType_df (onSfWakeUp token period p wakeUpTime df) = mJankType_df df"
  "mJankType_df (DisplayFrame_addSurfaceFrame sf df) = mJankType_df df"
  "mJankType_df (setActualEndTime t df) = mJankType_df df"
  "mJankType (SurfaceFrame_new token' pid uid layer debug state p' thresholds) = JankType_None"
  "mJankType (SurfaceFrame_setActualStartTime t sf) = mJankType sf"
  "mJankType (setActualQueueTime t sf) = mJankType sf"
  "mJankType (setAcquireFenceTime t sf) = mJankType sf"
  "mJankType (setPresentState presentState t sf) = mJankType sf"
  by (simp_all add: DisplayFrame_new_def onSfWakeUp_def DisplayFrame_addSurfaceFrame_def
      setActualEndTime_def SurfaceFrame_new_def SurfaceFrame_setActualStartTime_def
      setActualQueueTime_def setAcquireFenceTime_def setPresentState_def Let_def
      split: option.splits)

lemma or_keeps_bit: "((a OR b) OR c) AND b = (b :: 32 word)"
  by (simp add: bit_eq_iff bit_and_iff bit_or_iff) blast

lemma SurfaceFrame_onPresent_table:
  assumes r: "SurfaceFrame_onPresent t parent period sf = Inr (sf', c)"
    and v: "period \<noteq> 0"
    and p: "mPresentState sf = Presented" "mPredictionState sf = Valid"
    and j: "mJankType sf = JankType_None"
  shows "Some (mJankType sf') =
     map_option (\<lambda>j. j OR (if buffer_stuffed sf \<and> mFramePresentMetadata sf' = LatePresent
                           then JankType_BufferStuffing else 0))
       (table_4_2 (mFramePresentMetadata sf') (mFrameReadyMetadata sf')
          (near_vsync (t - presentTime (mPredictions sf)) period
             (presentThreshold (mJankClassificationThresholds sf)))
          parent)"
proof -
  let ?sf1 = "sf\<lparr> mActuals := (mActuals sf)\<lparr> presentTime := t \<rparr> \<rparr>"
  have s: "sf' = SurfaceFrame_classify parent period ?sf1"
    using r SurfaceFrame_onPresent_valid [OF p v, of t parent] by (simp add: Let_def)
  have "mJankType ?sf1 = JankType_None" using j by simp
  from SurfaceFrame_classify_table [OF this, of parent period]
  show ?thesis unfolding s by (simp add: buffer_stuffed_def)
qed

text \<open>
  C2. A call of \<open>DisplayFrame::onPresent\<close> on a frame with a nonzero vsync period, whose
  jank type is still \<open>None\<close> as constructed, returns with both metadata computed and
  with the jank type that Table 4.3 gives for them (for \<open>LatePresent\<close> and \<open>LateFinish\<close>:
  \<open>SurfaceFlingerCpuDeadlineMissed\<close>). Every surface frame of the frame is the result
  of \<open>SurfaceFrame::onPresent\<close> with the signal time, that jank type as parent and the
  vsync period of the display frame; a presented surface frame with a valid
  prediction, whose jank type was still \<open>None\<close>, gets the jank type that Table 4.2
  gives for its metadata (for \<open>LatePresent\<close>, \<open>LateFinish\<close> and parent \<open>None\<close>:
  \<open>AppDeadlineMissed\<close>), joined with \<open>BufferStuffing\<close> when it is late and stuffed.
\<close>

theorem DisplayFrame_onPresent_matrix:
  assumes v: "mVsyncPeriod df \<noteq> 0" and j: "mJankType_df df = JankType_None"
  shows "\<exists>df' calls. DisplayFrame_onPresent t df = Inr (df', calls)
     \<and> mFramePresentMetadata_df df' \<noteq> UnknownPresent
     \<and> mFrameReadyMetadata_df df' \<noteq> UnknownFinish
     \<and> mJankType_df df' =
         table_4_3 (mFramePresentMetadata_df df') (mFrameReadyMetadata_df df')
           (near_vsync (t - presentTime (mSurfaceFlingerPredictions df)) (mVsyncPeriod df)
              (presentThreshold (mJankClassificationThresholds_df df)))
     \<and> list_all2
         (\<lambda>sf sf'.
            (\<exists>c. SurfaceFrame_onPresent t (mJankType_df df') (mVsyncPeriod df) sf = Inr (sf', c))
            \<and> (mPresentState sf = Presented \<and> mPredictionState sf = Valid
                 \<and> mJankType sf = JankType_None \<longrightarrow>
                 Some (mJankType sf') =
                   map_option
                     (\<lambda>j. j OR (if buffer_stuffed sf \<and> mFramePresentMetadata sf' = LatePresent
                                 then JankType_BufferStuffing else 0))
                     (table_4_2 (mFramePresentMetadata sf') (mFrameReadyMetadata sf')
                        (near_vsync (t - presentTime (mPredictions sf)) (mVsyncPeriod df)
                           (presentThreshold (mJankClassificationThresholds sf)))
                        (mJankType_df df'))))
         (mSurfaceFrames df) (mSurfaceFrames df')"
proof -
  let ?df1 = "df\<lparr> mSurfaceFlingerActuals := (mSurfaceFlingerActuals df)\<lparr> presentTime := t \<rparr> \<rparr>"
  let ?df5 = "DisplayFrame_classify ?df1"
  from DisplayFrame_onPresent_unfold [OF v, of t] obtain sfs' calls where
    r: "DisplayFrame_onPresent t df =
       Inr (?df5\<lparr> mSurfaceFrames := sfs' \<rparr>,
            calls @ [IncrementJankyFrames
              (foldl (OR) (mJankType_df ?df5)
                 (map mJankType (filter (\<lambda>sf. presentTime (mActuals sf) \<noteq> 0) sfs')))])"
    and l: "list_all2 (\<lambda>sf sf'. \<exists>c. SurfaceFrame_onPresent t (mJankType_df ?df5)
            (mVsyncPeriod df) sf = Inr (sf', c)) (mSurfaceFrames df) sfs'"
    by blast
  have j1: "mJankType_df ?df1 = JankType_None" using j by simp
  have tab: "mJankType_df ?df5 =
         table_4_3 (mFramePresentMetadata_df ?df5) (mFrameReadyMetadata_df ?df5)
           (near_vsync (t - presentTime (mSurfaceFlingerPredictions df)) (mVsyncPeriod df)
              (presentThreshold (mJankClassificationThresholds_df df)))"
    using DisplayFrame_classify_table [OF j1] by simp
  have l2: "list_all2
         (\<lambda>sf sf'.
            (\<exists>c. SurfaceFrame_onPresent t (mJankType_df ?df5) (mVsyncPeriod df) sf = Inr (sf', c))
            \<and> (mPresentState sf = Presented \<and> mPredictionState sf = Valid
                 \<and> mJankType sf = JankType_None \<longrightarrow>
                 Some (mJankType sf') =
                   map_option
                     (\<lambda>j. j OR (if buffer_stuffed sf \<and> mFramePresentMetadata sf' = LatePresent
                                 then JankType_BufferStuffing else 0))
                     (table_4_2 (mFramePresentMetadata sf') (mFrameReadyMetadata sf')
                        (near_vsync (t - presentTime (mPredictions sf)) (mVsyncPeriod df)
                           (presentThreshold (mJankClassificationThresholds sf)))
                        (mJankType_df ?df5))))
         (mSurfaceFrames df) sfs'"
    using l
  proof (rule list_all2_mono)
    fix sf sf'
    assume "\<exists>c. SurfaceFrame_onPresent t (mJankType_df ?df5) (mVsyncPeriod df) sf = Inr (sf', c)"
    then obtain c where
      c: "SurfaceFrame_onPresent t (mJankType_df ?df5) (mVsyncPeriod df) sf = Inr (sf', c)"
      by blast
    show "(\<exists>c. SurfaceFrame_onPresent t (mJankType_df ?df5) (mVsyncPeriod df) sf = Inr (sf', c))
            \<and> (mPresentState sf = Presented \<and> mPredictionState sf = Valid
                 \<and> mJankType sf = JankType_None \<longrightarrow>
                 Some (mJankType sf') =
                   map_option
                     (\<lambda>j. j OR (if buffer_stuffed sf \<and> mFramePresentMetadata sf' = LatePresent
                                 then JankType_BufferStuffing else 0))
                     (table_4_2 (mFramePresentMetadata sf') (mFrameReadyMetadata sf')
                        (near_vsync (t - presentTime (mPredictions sf)) (mVsyncPeriod df)
                           (presentThreshold (mJankClassificationThresholds sf)))
                        (mJankType_df ?df5)))"
      using c SurfaceFrame_onPresent_table [OF c v] by blast
  qed
  show ?thesis
    unfolding r using tab l2 DisplayFrame_classify_metadata [of ?df1] by simp
qed

theorem DisplayFrame_onPresent_matrix_witness:
  "mVsyncPeriod on_time_display_frame \<noteq> 0
   \<and> mJankType_df on_time_display_frame = JankType_None
   \<and> (\<exists>df' calls. DisplayFrame_onPresent 61000000 on_time_display_frame = Inr (df', calls)
        \<and> mFramePresentMetadata_df df' = OnTimePresent
        \<and> mJankType_df df' = table_4_3 OnTimePresent OnTimeFinish False
        \<and> map mFramePresentMetadata (mSurfaceFrames df') = [LatePresent]
        \<and> map mFrameReadyMetadata (mSurfaceFrames df') = [LateFinish]
        \<and> map mJankType (mSurfaceFrames df') = [JankType_AppDeadlineMissed])
   \<and> mVsyncPeriod late_cpu_display_frame \<noteq> 0
   \<and> mJankType_df late_cpu_display_frame = JankType_None
   \<and> (\<exists>df' calls. DisplayFrame_onPresent 90000000 late_cpu_display_frame = Inr (df', calls)
        \<and> mFramePresentMetadata_df df' = LatePresent
        \<and> mFrameReadyMetadata_df df' = LateFinish
        \<and> mJankType_df df' = JankType_SurfaceFlingerCpuDeadlineMissed
        \<and> map mFramePresentMetadata (mSurfaceFrames df') = [LatePresent]
        \<and> map mFrameReadyMetadata (mSurfaceFrames df') = [OnTimeFinish]
        \<and> map mJankType (mSurfaceFrames df') = [JankType_SurfaceFlingerCpuDeadlineMissed])"
proof -
  have h: "mVsyncPeriod on_time_display_frame \<noteq> 0"
    and j: "mJankType_df on_time_display_frame = JankType_None"
    and h': "mVsyncPeriod late_cpu_display_frame \<noteq> 0"
    and j': "mJankType_df late_cpu_display_frame = JankType_None"
    by (simp_all add: example_defs)
  from DisplayFrame_onPresent_matrix [OF h j, of 61000000]
  obtain df' calls where
    r: "DisplayFrame_onPresent 61000000 on_time_display_frame = Inr (df', calls)"
    by (elim exE conjE)
  have e: "mFramePresentMetadata_df df' = OnTimePresent
        \<and> mJankType_df df' = table_4_3 OnTimePresent OnTimeFinish False
        \<and> map mFramePresentMetadata (mSurfaceFrames df') = [LatePresent]
        \<and> map mFrameReadyMetadata (mSurfaceFrames df') = [LateFinish]
        \<and> map mJankType (mSurfaceFrames df') = [JankType_AppDeadlineMissed]"
    using r
    by (auto simp add: example_defs DisplayFrame_onPresent_def DisplayFrame_classify_def Let_def
        SurfaceFrame_onPresent_def SurfaceFrame_classify_def SurfaceFrame_getJankType_def
        JankType_defs)
  from DisplayFrame_onPresent_matrix [OF h' j', of 90000000]
  obtain df'' calls' where
    r': "DisplayFrame_onPresent 90000000 late_cpu_display_frame = Inr (df'', calls')"
    and t': "mJankType_df df'' =
         table_4_3 (mFramePresentMetadata_df df'') (mFrameReadyMetadata_df df'')
           (near_vsync (90000000 - presentTime (mSurfaceFlingerPredictions late_cpu_display_frame))
              (mVsyncPeriod late_cpu_display_frame)
              (presentThreshold (mJankClassificationThresholds_df late_cpu_display_frame)))"
    by (elim exE conjE)
  have m': "mFramePresentMetadata_df df'' = LatePresent
        \<and> mFrameReadyMetadata_df df'' = LateFinish
        \<and> map mFramePresentMetadata (mSurfaceFrames df'') = [LatePresent]
        \<and> map mFrameReadyMetadata (mSurfaceFrames df'') = [OnTimeFinish]
        \<and> map mJankType (mSurfaceFrames df'') = [JankType_SurfaceFlingerCpuDeadlineMissed]"
    using r'
    by (auto simp add: example_defs DisplayFrame_onPresent_def DisplayFrame_classify_def Let_def
        SurfaceFrame_onPresent_def SurfaceFrame_classify_def SurfaceFrame_getJankType_def
        JankType_defs)
  have c': "mJankType_df df'' = JankType_SurfaceFlingerCpuDeadlineMissed"
    using t' m' by simp
  have first: "\<exists>df' calls. DisplayFrame_onPresent 61000000 on_time_display_frame = Inr (df', calls)
        \<and> mFramePresentMetadata_df df' = OnTimePresent
        \<and> mJankType_df df' = table_4_3 OnTimePresent OnTimeFinish False
        \<and> map mFramePresentMetadata (mSurfaceFrames df') = [LatePresent]
        \<and> map mFrameReadyMetadata (mSurfaceFrames df') = [LateFinish]
        \<and> map mJankType (mSurfaceFrames df') = [JankType_AppDeadlineMissed]"
    using r e by auto
  have second: "\<exists>df' calls. DisplayFrame_onPresent 90000000 late_cpu_display_frame = Inr (df', calls)
        \<and> mFramePresentMetadata_df df' = LatePresent
        \<and> mFrameReadyMetadata_df df' = LateFinish
        \<and> mJankType_df df' = JankType_SurfaceFlingerCpuDeadlineMissed
        \<and> map mFramePresentMetadata (mSurfaceFrames df') = [LatePresent]
        \<and> map mFrameReadyMetadata (mSurfaceFrames df') = [OnTimeFinish]
        \<and> map mJankType (mSurfaceFrames df') = [JankType_SurfaceFlingerCpuDeadlineMissed]"
    using r' m' c' by auto
  from h j first h' j' second show ?thesis by (intro conjI)
qed

text \<open>
  C5 (as stated) fails for a frame presented on time. The frame below is presented,
  has a valid prediction and is stuffed (it was latched at 25 ms, after its predicted
  end at 20 ms); presented at its predicted time, it is classified \<open>None\<close>, without
  the \<open>BufferStuffing\<close> bit.
\<close>

theorem stuffed_on_time_counterexample:
  "mPresentState stuffed_on_time_frame = Presented
   \<and> mPredictionState stuffed_on_time_frame = Valid
   \<and> mLastLatchTime stuffed_on_time_frame \<noteq> 0
   \<and> endTime (mPredictions stuffed_on_time_frame) \<le> mLastLatchTime stuffed_on_time_frame
   \<and> SurfaceFrame_onPresent 60000000 JankType_None 11000000 stuffed_on_time_frame =
       Inr (stuffed_on_time_frame
              \<lparr> mActuals := \<lparr> startTime = 0, endTime = 0, presentTime = 60000000 \<rparr>,
                mJankType := JankType_None,
                mFramePresentMetadata := OnTimePresent,
                mFrameReadyMetadata := OnTimeFinish \<rparr>,
            [IncrementJankyFramesLayer 0 ''layer1'' JankType_None])
   \<and> JankType_None AND JankType_BufferStuffing \<noteq> JankType_BufferStuffing"
  by (simp add: example_defs SurfaceFrame_onPresent_def SurfaceFrame_classify_def Let_def
      JankType_defs)

text \<open>
  C5 (as the code has it). For a presented frame with a valid prediction and a nonzero
  vsync period that is stuffed (\<open>mLastLatchTime\<close> is nonzero and not before the
  predicted end), \<open>onPresent\<close> returns, and the \<open>BufferStuffing\<close> bit is set in the jank
  type exactly when the present metadata assigned is \<open>LatePresent\<close>.
\<close>

theorem SurfaceFrame_onPresent_buffer_stuffing:
  assumes "mPresentState sf = Presented" and "mPredictionState sf = Valid"
    and "period \<noteq> 0"
    and "mLastLatchTime sf \<noteq> 0" and "endTime (mPredictions sf) \<le> mLastLatchTime sf"
  shows "\<exists>sf' calls. SurfaceFrame_onPresent t parent period sf = Inr (sf', calls)
     \<and> (mJankType sf' AND JankType_BufferStuffing = JankType_BufferStuffing)
         = (mFramePresentMetadata sf' = LatePresent)"
  using assms
  by (simp add: SurfaceFrame_onPresent_def SurfaceFrame_classify_def Let_def or_keeps_bit)
    (simp add: JankType_defs)

theorem SurfaceFrame_onPresent_buffer_stuffing_witness:
  "mPresentState stuffed_late_frame = Presented
   \<and> mPredictionState stuffed_late_frame = Valid
   \<and> mLastLatchTime stuffed_late_frame \<noteq> 0
   \<and> endTime (mPredictions stuffed_late_frame) \<le> mLastLatchTime stuffed_late_frame
   \<and> (\<exists>sf' calls. SurfaceFrame_onPresent 60000000 JankType_None 11000000 stuffed_late_frame
          = Inr (sf', calls)
        \<and> mFramePresentMetadata sf' = LatePresent
        \<and> mJankType sf' AND JankType_BufferStuffing = JankType_BufferStuffing)"
proof -
  have h: "mPresentState stuffed_late_frame = Presented"
    "mPredictionState stuffed_late_frame = Valid"
    "(11000000::int) \<noteq> 0"
    "mLastLatchTime stuffed_late_frame \<noteq> 0"
    "endTime (mPredictions stuffed_late_frame) \<le> mLastLatchTime stuffed_late_frame"
    by (simp_all add: example_defs)
  from SurfaceFrame_onPresent_buffer_stuffing [OF h, of 60000000 JankType_None]
  obtain sf' calls where
    r: "SurfaceFrame_onPresent 60000000 JankType_None 11000000 stuffed_late_frame = Inr (sf', calls)"
    and b: "(mJankType sf' AND JankType_BufferStuffing = JankType_BufferStuffing)
         = (mFramePresentMetadata sf' = LatePresent)"
    by (elim exE conjE)
  have e: "mFramePresentMetadata sf' = LatePresent"
    using r
    by (auto simp add: example_defs SurfaceFrame_onPresent_def SurfaceFrame_classify_def Let_def)
  show ?thesis
    using h r b e by auto
qed

section \<open>Retention of tokens\<close>

lemma flushTokens_loop_dropWhile:
  "flushTokens_loop t xs = dropWhile (\<lambda>it. t - timestamp (snd it) \<ge> kMaxRetentionTime) xs"
  by (induction xs) simp_all

lemma flushTokens_loop_lookup:
  assumes "sorted_wrt (\<lambda>a b. fst a < fst b \<and> timestamp (snd a) \<le> timestamp (snd b)) xs"
  shows "map_of (flushTokens_loop t xs) k =
     (case map_of xs k of
        None \<Rightarrow> None
      | Some e \<Rightarrow> if t - timestamp e \<ge> kMaxRetentionTime then None else Some e)"
  using assms
proof (induction xs)
  case Nil
  then show ?case by simp
next
  case (Cons x xs)
  have later: "\<forall>y \<in> set xs. fst x < fst y \<and> timestamp (snd x) \<le> timestamp (snd y)"
    and srt: "sorted_wrt (\<lambda>a b. fst a < fst b \<and> timestamp (snd a) \<le> timestamp (snd b)) xs"
    using Cons.prems by simp_all
  have absent: "map_of xs (fst x) = None"
  proof (rule ccontr)
    assume "map_of xs (fst x) \<noteq> None"
    then obtain e where "map_of xs (fst x) = Some e" by blast
    then have "(fst x, e) \<in> set xs" by (rule map_of_SomeD)
    with later show False by fastforce
  qed
  show ?case
  proof (cases "t - timestamp (snd x) \<ge> kMaxRetentionTime")
    case True
    then show ?thesis
      using Cons.IH [OF srt] absent by (cases x) (auto split: option.splits)
  next
    case False
    have "map_of xs k = Some e \<Longrightarrow> \<not> t - timestamp e \<ge> kMaxRetentionTime" for e
    proof -
      assume "map_of xs k = Some e"
      then have "(k, e) \<in> set xs" by (rule map_of_SomeD)
      with later have "timestamp (snd x) \<le> timestamp e" by fastforce
      with False show ?thesis by linarith
    qed
    with False show ?thesis
      by (cases x) (auto split: option.splits)
  qed
qed

lemma map_assign_append:
  "\<forall>it \<in> set xs. fst it < k \<Longrightarrow> map_assign k v xs = xs @ [(k, v)]"
  by (induction xs) auto

lemma tokens_in_time_order_flush:
  assumes "tokens_in_time_order now tm"
  shows "tokens_in_time_order now (flushTokens t tm)"
  using assms
  by (auto simp add: tokens_in_time_order_def flushTokens_def flushTokens_loop_dropWhile
      dest: set_dropWhileD)

lemma tokens_in_time_order_generate:
  assumes "tokens_in_time_order now tm" and "now \<le> stampTime" and "stampTime \<le> flushTime"
  shows "tokens_in_time_order flushTime (snd (generateTokenForPredictions p stampTime flushTime tm))"
proof -
  let ?e = "\<lparr> timestamp = stampTime, predictions = p \<rparr>"
  let ?tm2 = "tm\<lparr> mCurrentToken := mCurrentToken tm + 1,
                  mPredictions_tm := mPredictions_tm tm @ [(mCurrentToken tm, ?e)] \<rparr>"
  have a: "map_assign (mCurrentToken tm) ?e (mPredictions_tm tm)
             = mPredictions_tm tm @ [(mCurrentToken tm, ?e)]"
    using assms(1) by (intro map_assign_append) (simp add: tokens_in_time_order_def)
  have "tokens_in_time_order flushTime ?tm2"
    using assms by (fastforce simp add: tokens_in_time_order_def sorted_wrt_append)
  then have "tokens_in_time_order flushTime (flushTokens flushTime ?tm2)"
    by (rule tokens_in_time_order_flush)
  then show ?thesis
    by (simp add: generateTokenForPredictions_def Let_def a)
qed

lemma tokens_in_time_order_run:
  "monotonic_clock now ops \<Longrightarrow> tokens_in_time_order now tm \<Longrightarrow>
     tokens_in_time_order (last_reading now ops) (run_TokenManager ops tm)"
proof (induction ops arbitrary: now tm)
  case Nil
  then show ?case by simp
next
  case (Cons c ops)
  show ?case
  proof (cases c)
    case (GenerateToken p stampTime flushTime)
    with Cons.prems have "tokens_in_time_order flushTime
        (snd (generateTokenForPredictions p stampTime flushTime tm))"
      by (intro tokens_in_time_order_generate [of now]) simp_all
    with Cons.prems GenerateToken show ?thesis
      using Cons.IH [of flushTime "snd (generateTokenForPredictions p stampTime flushTime tm)"]
      by simp
  next
    case (FlushTokens flushTime)
    with Cons.prems have "tokens_in_time_order now (flushTokens flushTime tm)"
      by (intro tokens_in_time_order_flush) simp
    with Cons.prems FlushTokens show ?thesis
      using Cons.IH [of now "flushTokens flushTime tm"] by simp
  qed
qed

lemma tokens_in_time_order_new: "tokens_in_time_order now TokenManager_new"
  by (simp add: tokens_in_time_order_def TokenManager_new_def)

text \<open>
  C3. Take any history of the token manager under a monotonic clock, and a token that
  its map holds. After \<open>flushTokens\<close> with a reference time, the token resolves to
  nothing when its time stamp is at or before the reference time less
  \<open>kMaxRetentionTime\<close>, and still resolves to its predictions when its time stamp is
  after that. After a flush with reference time \<open>now + kMaxRetentionTime\<close>, where \<open>now\<close>
  is not before the clock of the history, every token resolves to nothing.
\<close>

theorem flushTokens_retention:
  assumes "monotonic_clock now0 ops"
    and "tm = run_TokenManager ops TokenManager_new"
    and "map_of (mPredictions_tm tm) token = Some entry"
  shows "(timestamp entry \<le> referenceTime - kMaxRetentionTime \<longrightarrow>
            getPredictionsForToken token (flushTokens referenceTime tm) = None)
     \<and> (timestamp entry > referenceTime - kMaxRetentionTime \<longrightarrow>
            getPredictionsForToken token (flushTokens referenceTime tm) = Some (predictions entry))
     \<and> (last_reading now0 ops \<le> now \<longrightarrow>
            (\<forall>t. getPredictionsForToken t (flushTokens (now + kMaxRetentionTime) tm) = None))"
proof -
  have inv: "tokens_in_time_order (last_reading now0 ops) tm"
    using tokens_in_time_order_run [OF assms(1) tokens_in_time_order_new] assms(2) by simp
  then have srt: "sorted_wrt (\<lambda>a b. fst a < fst b \<and> timestamp (snd a) \<le> timestamp (snd b))
       (mPredictions_tm tm)"
    by (simp add: tokens_in_time_order_def)
  have look: "map_of (flushTokens_loop t (mPredictions_tm tm)) k =
     (case map_of (mPredictions_tm tm) k of
        None \<Rightarrow> None
      | Some e \<Rightarrow> if t - timestamp e \<ge> kMaxRetentionTime then None else Some e)" for t k
    using srt by (rule flushTokens_loop_lookup)
  have old: "timestamp entry \<le> referenceTime - kMaxRetentionTime \<longrightarrow>
            getPredictionsForToken token (flushTokens referenceTime tm) = None"
    using assms(3) by (simp add: getPredictionsForToken_def flushTokens_def look)
  have young: "timestamp entry > referenceTime - kMaxRetentionTime \<longrightarrow>
            getPredictionsForToken token (flushTokens referenceTime tm) = Some (predictions entry)"
    using assms(3) by (simp add: getPredictionsForToken_def flushTokens_def look)
  have all: "getPredictionsForToken t (flushTokens (now + kMaxRetentionTime) tm) = None"
    if le: "last_reading now0 ops \<le> now" for t
  proof (cases "map_of (mPredictions_tm tm) t")
    case None
    then show ?thesis by (simp add: getPredictionsForToken_def flushTokens_def look)
  next
    case (Some e)
    then have "(t, e) \<in> set (mPredictions_tm tm)" by (rule map_of_SomeD)
    with inv have "timestamp e \<le> last_reading now0 ops"
      by (fastforce simp add: tokens_in_time_order_def)
    with le Some show ?thesis by (simp add: getPredictionsForToken_def flushTokens_def look)
  qed
  from old young all show ?thesis by blast
qed

theorem flushTokens_retention_witness:
  "monotonic_clock 0 two_tokens
   \<and> map_of (mPredictions_tm (run_TokenManager two_tokens TokenManager_new)) 0
       = Some \<lparr> timestamp = 0,
                predictions = \<lparr> startTime = 0, endTime = 0, presentTime = 0 \<rparr> \<rparr>
   \<and> map_of (mPredictions_tm (run_TokenManager two_tokens TokenManager_new)) 1
       = Some \<lparr> timestamp = 100000000,
                predictions = \<lparr> startTime = 10, endTime = 20, presentTime = 30 \<rparr> \<rparr>
   \<and> getPredictionsForToken 0
         (flushTokens 150000000 (run_TokenManager two_tokens TokenManager_new)) = None
   \<and> getPredictionsForToken 1
         (flushTokens 150000000 (run_TokenManager two_tokens TokenManager_new))
       = Some \<lparr> startTime = 10, endTime = 20, presentTime = 30 \<rparr>
   \<and> getPredictionsForToken 1
         (flushTokens (100000000 + kMaxRetentionTime)
            (run_TokenManager two_tokens TokenManager_new)) = None"
proof -
  have c: "monotonic_clock 0 two_tokens"
    by (simp add: two_tokens_def)
  have l: "last_reading 0 two_tokens \<le> 100000000"
    by (simp add: two_tokens_def)
  have m0: "map_of (mPredictions_tm (run_TokenManager two_tokens TokenManager_new)) 0
       = Some \<lparr> timestamp = 0,
                predictions = \<lparr> startTime = 0, endTime = 0, presentTime = 0 \<rparr> \<rparr>"
    and m1: "map_of (mPredictions_tm (run_TokenManager two_tokens TokenManager_new)) 1
       = Some \<lparr> timestamp = 100000000,
                predictions = \<lparr> startTime = 10, endTime = 20, presentTime = 30 \<rparr> \<rparr>"
    by (simp_all add: two_tokens_def TokenManager_new_def INVALID_VSYNC_ID_def
        generateTokenForPredictions_def flushTokens_def kMaxRetentionTime_def Let_def)
  show ?thesis
    using c m0 m1 l
      flushTokens_retention [OF c refl m0, of 150000000 100000000]
      flushTokens_retention [OF c refl m1, of 150000000 100000000]
    by (simp add: kMaxRetentionTime_def)
qed

section \<open>Reconciliation of present fences\<close>

lemma DisplayFrame_onPresent_mVsyncPeriod:
  assumes "DisplayFrame_onPresent t df = Inr (df', calls)"
  shows "mVsyncPeriod df' = mVsyncPeriod df"
proof (cases "mVsyncPeriod df = 0")
  case True
  with assms show ?thesis by (simp add: DisplayFrame_onPresent_def Let_def)
next
  case False
  from DisplayFrame_onPresent_unfold [OF False, of t] assms show ?thesis
    by (auto simp add: DisplayFrame_classify_fields)
qed

lemma DisplayFrame_onPresent_returns:
  "mVsyncPeriod df \<noteq> 0 \<Longrightarrow> \<exists>df' calls. DisplayFrame_onPresent t df = Inr (df', calls)"
  using DisplayFrame_onPresent_unfold [of df t] by blast

lemma flushPendingPresentFences_loop_result:
  assumes "\<forall>entry \<in> set pending.
             fence_signaled fences entry \<longrightarrow> mVsyncPeriod (store (snd entry)) \<noteq> 0"
  shows "\<exists>store' calls.
     flushPendingPresentFences_loop fences pid pending store =
       Inr (filter (fence_pending fences) pending, store',
            concat (map (\<lambda>entry. [OnPresentCall (snd entry) (signal_time_of fences entry),
                                   TraceCall (snd entry) pid])
                      (filter (fence_signaled fences) pending)),
            calls)
     \<and> (\<forall>a. mVsyncPeriod (store' a) = mVsyncPeriod (store a))"
  using assms
proof (induction pending arbitrary: store)
  case Nil
  then show ?case by simp
next
  case (Cons entry pending)
  have rest: "\<forall>e \<in> set pending.
                fence_signaled fences e \<longrightarrow> mVsyncPeriod (store (snd e)) \<noteq> 0"
    using Cons.prems by simp
  let ?events = "\<lambda>es. concat (map (\<lambda>entry. [OnPresentCall (snd entry) (signal_time_of fences entry),
                                   TraceCall (snd entry) pid])
                      (filter (fence_signaled fences) es))"
  consider (pending) "fence_pending fences entry"
    | (signaled) "fence_signaled fences entry"
    | (dropped) "\<not> fence_pending fences entry" "\<not> fence_signaled fences entry"
    by blast
  then show ?case
  proof cases
    case pending
    then have ns: "\<not> fence_signaled fences entry"
      by (auto simp add: fence_pending_def fence_signaled_def split: option.splits)
    from pending obtain f where f: "fst entry = Some f" "isValid (fences f)"
      "getSignalTime (fences f) = SIGNAL_TIME_PENDING"
      by (auto simp add: fence_pending_def split: option.splits)
    from Cons.IH [OF rest] obtain store' calls where
      r: "flushPendingPresentFences_loop fences pid pending store =
       Inr (filter (fence_pending fences) pending, store', ?events pending, calls)"
      and s: "\<forall>a. mVsyncPeriod (store' a) = mVsyncPeriod (store a)"
      by blast
    have "flushPendingPresentFences_loop fences pid (entry # pending) store =
       Inr (entry # filter (fence_pending fences) pending, store', ?events pending, calls)"
      using f r by (simp add: Let_def)
    then show ?thesis
      using pending ns s by simp
  next
    case signaled
    then have np: "\<not> fence_pending fences entry"
      by (auto simp add: fence_pending_def fence_signaled_def split: option.splits)
    have v: "mVsyncPeriod (store (snd entry)) \<noteq> 0"
      using Cons.prems signaled by simp
    from signaled obtain f where f: "fst entry = Some f" "isValid (fences f)"
      "getSignalTime (fences f) \<noteq> SIGNAL_TIME_PENDING"
      "getSignalTime (fences f) \<noteq> SIGNAL_TIME_INVALID"
      by (auto simp add: fence_signaled_def split: option.splits)
    have st: "signal_time_of fences entry = getSignalTime (fences f)"
      using f by (simp add: signal_time_of_def)
    obtain df' c where
      d: "DisplayFrame_onPresent (getSignalTime (fences f)) (store (snd entry)) = Inr (df', c)"
      using DisplayFrame_onPresent_returns [OF v] by blast
    have dv: "mVsyncPeriod df' = mVsyncPeriod (store (snd entry))"
      using d by (rule DisplayFrame_onPresent_mVsyncPeriod)
    have rest': "\<forall>e \<in> set pending. fence_signaled fences e \<longrightarrow>
                   mVsyncPeriod ((store(snd entry := df')) (snd e)) \<noteq> 0"
      using rest dv v by simp
    from Cons.IH [OF rest'] obtain store' calls where
      r: "flushPendingPresentFences_loop fences pid pending (store(snd entry := df')) =
       Inr (filter (fence_pending fences) pending, store', ?events pending, calls)"
      and s: "\<forall>a. mVsyncPeriod (store' a) = mVsyncPeriod ((store(snd entry := df')) a)"
      by blast
    have s': "\<forall>a. mVsyncPeriod (store' a) = mVsyncPeriod (store a)"
      using s dv by (simp add: fun_upd_def)
    have "flushPendingPresentFences_loop fences pid (entry # pending) store =
       Inr (filter (fence_pending fences) pending, store',
            OnPresentCall (snd entry) (getSignalTime (fences f)) # TraceCall (snd entry) pid
              # ?events pending, c @ calls)"
      using f d r by (simp add: Let_def)
    then show ?thesis
      using signaled np st s' by simp
  next
    case dropped
    have inv: "(case fst entry of None \<Rightarrow> SIGNAL_TIME_INVALID
             | Some f \<Rightarrow> if isValid (fences f) then getSignalTime (fences f)
                         else SIGNAL_TIME_INVALID) = SIGNAL_TIME_INVALID"
      and np: "\<not> ((case fst entry of None \<Rightarrow> False | Some f \<Rightarrow> isValid (fences f))
                 \<and> SIGNAL_TIME_INVALID = SIGNAL_TIME_PENDING)"
      using dropped
      by (auto simp add: fence_pending_def fence_signaled_def split: option.splits)
    from Cons.IH [OF rest] obtain store' calls where
      r: "flushPendingPresentFences_loop fences pid pending store =
       Inr (filter (fence_pending fences) pending, store', ?events pending, calls)"
      and s: "\<forall>a. mVsyncPeriod (store' a) = mVsyncPeriod (store a)"
      by blast
    have "flushPendingPresentFences_loop fences pid (entry # pending) store =
       Inr (filter (fence_pending fences) pending, store', ?events pending, calls)"
      using inv np r by (simp add: Let_def)
    then show ?thesis
      using dropped s by simp
  qed
qed

lemmas engine_defs = first_cycle_def second_cycle_def unwoken_cycle_def before_second_flush_def setSfPresent_def setSfWakeUp_def
  FrameTimeline_new_def flushPendingPresentFences_def all_fences_pending_def
  second_fence_signaled_def finalizeCurrentDisplayFrame_def kDefaultMaxDisplayFrames_def
  getPredictionsForToken_def TokenManager_new_def example_thresholds_def
  setActualEndTime_def onSfWakeUp_def DisplayFrame_new_def

text \<open>
  C1 (as stated) fails: the flush does not stop at a pending fence. Two cycles of the
  engine: the first display frame (address 0) is enqueued with fence 0, which stays
  pending; the second (address 1) is enqueued with fence 1, which has signaled at
  60 ms when the second \<open>setSfPresent\<close> flushes. The second frame is classified and
  traced, and the first is still in the list, its fence pending.
\<close>

theorem later_frame_classified_counterexample:
  "map_sum id (fst \<circ> snd) first_cycle = Inr []
   \<and> map_sum id (mPendingPresentFences \<circ> fst) first_cycle = Inr [(Some 0, 0)]
   \<and> map_sum id (fst \<circ> snd) second_cycle
       = Inr [OnPresentCall 1 60000000, TraceCall 1 0]
   \<and> map_sum id (mPendingPresentFences \<circ> fst) second_cycle = Inr [(Some 0, 0)]
   \<and> fence_pending second_fence_signaled (Some 0, 0)"
  by (simp add: engine_defs Let_def fence_pending_def SIGNAL_TIME_PENDING_def
      SIGNAL_TIME_INVALID_def DisplayFrame_onPresent_def DisplayFrame_classify_def)

text \<open>
  C1 (as the code has it). \<open>flushPendingPresentFences\<close> goes through the whole list.
  When the display frames of the entries whose fence has a signal time have nonzero
  vsync periods (\<open>onPresent\<close> divides by the period; the frames of the other entries
  are not read) it returns; it calls \<open>onPresent\<close> and then \<open>trace\<close> on the frame of
  every entry whose fence has a signal time, in the order of the list whatever lies
  between them, and the list it leaves holds exactly the entries whose fence is still
  pending, in their order. The entries that are neither (a null or invalid fence, the
  invalid signal time) are erased unclassified.
\<close>

theorem flushPendingPresentFences_skips_pending:
  assumes "\<forall>entry \<in> set (mPendingPresentFences ft).
             fence_signaled fences entry \<longrightarrow>
               mVsyncPeriod (displayFrames ft (snd entry)) \<noteq> 0"
  shows "\<exists>ft' calls.
     flushPendingPresentFences fences ft =
       Inr (ft',
            concat (map (\<lambda>entry. [OnPresentCall (snd entry) (signal_time_of fences entry),
                                   TraceCall (snd entry) (mSurfaceFlingerPid ft)])
                      (filter (fence_signaled fences) (mPendingPresentFences ft))),
            calls)
     \<and> mPendingPresentFences ft' = filter (fence_pending fences) (mPendingPresentFences ft)"
proof -
  from flushPendingPresentFences_loop_result [OF assms, where pid = "mSurfaceFlingerPid ft"]
  obtain store' calls where
    "flushPendingPresentFences_loop fences (mSurfaceFlingerPid ft) (mPendingPresentFences ft)
        (displayFrames ft) =
       Inr (filter (fence_pending fences) (mPendingPresentFences ft), store',
            concat (map (\<lambda>entry. [OnPresentCall (snd entry) (signal_time_of fences entry),
                                   TraceCall (snd entry) (mSurfaceFlingerPid ft)])
                      (filter (fence_signaled fences) (mPendingPresentFences ft))),
            calls)"
    by blast
  then show ?thesis
    by (simp add: flushPendingPresentFences_def)
qed

theorem flushPendingPresentFences_skips_pending_witness:
  "mPendingPresentFences before_second_flush = [(Some 0, 0), (Some 1, 1)]
   \<and> fence_pending second_fence_signaled (Some 0, 0)
   \<and> mVsyncPeriod (displayFrames before_second_flush 0) = 0
   \<and> fence_signaled second_fence_signaled (Some 1, 1)
   \<and> mVsyncPeriod (displayFrames before_second_flush 1) \<noteq> 0
   \<and> (\<exists>ft' calls.
        flushPendingPresentFences second_fence_signaled before_second_flush =
          Inr (ft', [OnPresentCall 1 60000000, TraceCall 1 0], calls)
        \<and> mPendingPresentFences ft' = [(Some 0, 0)])"
proof -
  have p: "mPendingPresentFences before_second_flush = [(Some 0, 0), (Some 1, 1)]"
    and v0: "mVsyncPeriod (displayFrames before_second_flush 0) = 0"
    and v1: "mVsyncPeriod (displayFrames before_second_flush 1) \<noteq> 0"
    and pid: "mSurfaceFlingerPid before_second_flush = 0"
    by (simp_all add: engine_defs Let_def SIGNAL_TIME_PENDING_def SIGNAL_TIME_INVALID_def)
  have fp: "fence_pending second_fence_signaled (Some 0, 0)"
    and ns: "\<not> fence_signaled second_fence_signaled (Some 0, 0)"
    and fs: "fence_signaled second_fence_signaled (Some 1, 1)"
    and np: "\<not> fence_pending second_fence_signaled (Some 1, 1)"
    and st: "signal_time_of second_fence_signaled (Some 1, 1) = 60000000"
    by (simp_all add: fence_signaled_def fence_pending_def signal_time_of_def
        second_fence_signaled_def all_fences_pending_def SIGNAL_TIME_PENDING_def
        SIGNAL_TIME_INVALID_def)
  have h: "\<forall>entry \<in> set (mPendingPresentFences before_second_flush).
             fence_signaled second_fence_signaled entry \<longrightarrow>
               mVsyncPeriod (displayFrames before_second_flush (snd entry)) \<noteq> 0"
    unfolding p using ns v1 by simp
  have f: "filter (fence_signaled second_fence_signaled) [(Some 0, 0), (Some 1, 1)]
             = [(Some 1, 1)]"
    "filter (fence_pending second_fence_signaled) [(Some 0, 0), (Some 1, 1)]
             = [(Some 0, 0)]"
    using fp ns fs np by simp_all
  have "\<exists>ft' calls.
        flushPendingPresentFences second_fence_signaled before_second_flush =
          Inr (ft', [OnPresentCall 1 60000000, TraceCall 1 0], calls)
        \<and> mPendingPresentFences ft' = [(Some 0, 0)]"
    using flushPendingPresentFences_skips_pending [OF h]
    unfolding p pid f by (simp add: st del: One_nat_def)
  with p fp v0 fs v1 show ?thesis by (intro conjI)
qed

section \<open>Base time\<close>

text \<open>
  C7. The claim holds of the specification's wording, not of the code: where
  \<open>actuals.presentTime\<close> is nonzero, \<open>getMinTime\<close> takes the minimum with
  \<open>actuals.endTime\<close> again, so the present time never enters the base time. On the
  display frame of the test \<open>setMaxDisplayFramesSetsSizeProperly\<close> (predictions 22, 26,
  30; woken at 22, ended at 27, its fence signaled at 2) the code gives 22 and the
  minimum of the candidates is 2. On a presented surface frame without
  token, whose start and end were never set, the code gives 0 where the only candidate
  is the present time 42.
\<close>

theorem getBaseTime_ignores_present_time:
  "mPredictionState_df early_signal_frame = Valid
   \<and> mSurfaceFlingerPredictions early_signal_frame
       = \<lparr> startTime = 22, endTime = 26, presentTime = 30 \<rparr>
   \<and> mSurfaceFlingerActuals early_signal_frame
       = \<lparr> startTime = 22, endTime = 27, presentTime = 2 \<rparr>
   \<and> mSurfaceFrames early_signal_frame = []
   \<and> DisplayFrame_getBaseTime early_signal_frame = 22
   \<and> spec_base_time early_signal_frame = 2
   \<and> mPredictionState tokenless_presented_frame = PredictionNone
   \<and> mActuals tokenless_presented_frame = \<lparr> startTime = 0, endTime = 0, presentTime = 42 \<rparr>
   \<and> SurfaceFrame_getBaseTime tokenless_presented_frame = 0
   \<and> time_candidates (mPredictionState tokenless_presented_frame)
         (mPredictions tokenless_presented_frame) (mActuals tokenless_presented_frame) = [42]"
  by (simp add: early_signal_frame_def tokenless_presented_frame_def example_defs
      DisplayFrame_onPresent_def DisplayFrame_classify_def SurfaceFrame_onPresent_def Let_def
      DisplayFrame_getBaseTime_def SurfaceFrame_getBaseTime_def getMinTime_def
      nsecs_max_def spec_base_time_def base_time_candidates_def time_candidates_def)

section \<open>Selection of a refresh rate\<close>

lemma layerScore_returns:
  "displayPeriod \<noteq> 0 \<Longrightarrow> \<exists>s. layerScore ops w lp displayPeriod = Inr s"
  by (simp add: layerScore_def Let_def)

lemma addLayerScore_returns:
  "\<forall>x \<in> set scores. vsyncPeriod (fst x) \<noteq> 0 \<Longrightarrow>
     \<exists>scores'. addLayerScore ops w lp scores = Inr scores' \<and> map fst scores' = map fst scores"
proof (induction scores)
  case Nil
  then show ?case by simp
next
  case (Cons x scores)
  obtain r o' where x: "x = (r, o')" by (cases x)
  with Cons.prems obtain s where s: "layerScore ops w lp (vsyncPeriod r) = Inr s"
    using layerScore_returns [of "vsyncPeriod r" ops w lp] by auto
  from Cons obtain scores' where
    "addLayerScore ops w lp scores = Inr scores'" "map fst scores' = map fst scores"
    by auto
  with x s show ?case by simp
qed

lemma scoreLayers_returns:
  "\<forall>x \<in> set scores. vsyncPeriod (fst x) \<noteq> 0 \<Longrightarrow>
     \<exists>scores'. scoreLayers ops nd ne layers scores = Inr scores'
        \<and> map fst scores' = map fst scores"
proof (induction layers arbitrary: scores)
  case Nil
  then show ?case by simp
next
  case (Cons layer layers)
  show ?case
  proof (cases "vote layer = NoVote \<or> vote layer = MinVote \<or> vote layer = MaxVote")
    case True
    with Cons show ?thesis by simp
  next
    case False
    let ?w0 = "weight layer"
    let ?w1 = "if ne + nd > 0 \<and> vote layer = Heuristic
               then fdiv ops ?w0 (float_of_int ops 2) else ?w0"
    let ?w2 = "if ne > 0 \<and> (vote layer = Heuristic \<or> vote layer = ExplicitDefault)
               then fdiv ops ?w1 (float_of_int ops 2) else ?w1"
    let ?lp = "round_nsecs ops (fdiv ops (float_of_int ops 1000000000) (desiredRefreshRate layer))"
    from addLayerScore_returns [OF Cons.prems, of ops ?w2 ?lp] obtain scores1 where
      a: "addLayerScore ops ?w2 ?lp scores = Inr scores1" and m: "map fst scores1 = map fst scores"
      by blast
    have "\<forall>x \<in> set scores1. vsyncPeriod (fst x) \<noteq> 0"
    proof
      fix x assume "x \<in> set scores1"
      then have "fst x \<in> set (map fst scores1)" by simp
      with m have "fst x \<in> fst ` set scores" by simp
      with Cons.prems show "vsyncPeriod (fst x) \<noteq> 0" by auto
    qed
    from Cons.IH [OF this] obtain scores' where
      r: "scoreLayers ops nd ne layers scores1 = Inr scores'"
      and m': "map fst scores' = map fst scores1"
      by blast
    have e: "scoreLayers ops nd ne (layer # layers) scores =
        (case addLayerScore ops ?w2 ?lp scores of
           Inl e \<Rightarrow> Inl e
         | Inr scores1 \<Rightarrow> scoreLayers ops nd ne layers scores1)"
      using False by (simp add: Let_def)
    show ?thesis
      unfolding e a using r m m' by simp
  qed
qed

lemma bestRefreshRate_loop_result:
  "if \<forall>x \<in> set scores. snd x \<le> m then bestRefreshRate_loop scores m b = b
   else \<exists>pre r s post. scores = pre @ (r, s) # post
          \<and> bestRefreshRate_loop scores m b = Some r \<and> m < s
          \<and> (\<forall>x \<in> set pre. snd x < s) \<and> (\<forall>x \<in> set post. snd x \<le> s)"
proof (induction scores arbitrary: m b)
  case Nil
  then show ?case by simp
next
  case (Cons x scores)
  obtain r0 s0 where x: "x = (r0, s0)" by (cases x)
  show ?case
  proof (cases "s0 > m")
    case True
    note IH = Cons.IH [of s0 "Some r0"]
    show ?thesis
    proof (cases "\<forall>y \<in> set scores. snd y \<le> s0")
      case all: True
      with IH have "bestRefreshRate_loop scores s0 (Some r0) = Some r0" by simp
      with True x all have "x # scores = [] @ (r0, s0) # scores
          \<and> bestRefreshRate_loop (x # scores) m b = Some r0 \<and> m < s0
          \<and> (\<forall>y \<in> set []. snd y < s0) \<and> (\<forall>y \<in> set scores. snd y \<le> s0)"
        by simp
      then have "\<exists>pre r s post. x # scores = pre @ (r, s) # post
          \<and> bestRefreshRate_loop (x # scores) m b = Some r \<and> m < s
          \<and> (\<forall>y \<in> set pre. snd y < s) \<and> (\<forall>y \<in> set post. snd y \<le> s)"
        by blast
      with True x show ?thesis by auto
    next
      case False
      with IH obtain pre r s post where
        d: "scores = pre @ (r, s) # post"
        and l: "bestRefreshRate_loop scores s0 (Some r0) = Some r"
        and g: "s0 < s" "\<forall>y \<in> set pre. snd y < s" "\<forall>y \<in> set post. snd y \<le> s"
        by auto
      from d l g True x have "x # scores = (x # pre) @ (r, s) # post
          \<and> bestRefreshRate_loop (x # scores) m b = Some r \<and> m < s
          \<and> (\<forall>y \<in> set (x # pre). snd y < s) \<and> (\<forall>y \<in> set post. snd y \<le> s)"
        by auto
      then have "\<exists>pre r s post. x # scores = pre @ (r, s) # post
          \<and> bestRefreshRate_loop (x # scores) m b = Some r \<and> m < s
          \<and> (\<forall>y \<in> set pre. snd y < s) \<and> (\<forall>y \<in> set post. snd y \<le> s)"
        by blast
      with True x show ?thesis by auto
    qed
  next
    case le: False
    note IH = Cons.IH [of m b]
    show ?thesis
    proof (cases "\<forall>y \<in> set scores. snd y \<le> m")
      case True
      with IH le x show ?thesis by auto
    next
      case False
      with IH obtain pre r s post where
        d: "scores = pre @ (r, s) # post"
        and l: "bestRefreshRate_loop scores m b = Some r"
        and g: "m < s" "\<forall>y \<in> set pre. snd y < s" "\<forall>y \<in> set post. snd y \<le> s"
        by auto
      from d l g le x have "x # scores = (x # pre) @ (r, s) # post
          \<and> bestRefreshRate_loop (x # scores) m b = Some r \<and> m < s
          \<and> (\<forall>y \<in> set (x # pre). snd y < s) \<and> (\<forall>y \<in> set post. snd y \<le> s)"
        by auto
      then have "\<exists>pre r s post. x # scores = pre @ (r, s) # post
          \<and> bestRefreshRate_loop (x # scores) m b = Some r \<and> m < s
          \<and> (\<forall>y \<in> set pre. snd y < s) \<and> (\<forall>y \<in> set post. snd y \<le> s)"
        by blast
      with False show ?thesis by auto
    qed
  qed
qed

lemma getSortedRefreshRateList_sorted:
  "sorted_wrt (\<lambda>a b. vsyncPeriod a \<ge> vsyncPeriod b) (getSortedRefreshRateList shouldAdd rates)"
proof -
  have "sorted (map (\<lambda>r. - vsyncPeriod r) (getSortedRefreshRateList shouldAdd rates))"
    by (simp add: getSortedRefreshRateList_def)
  then show ?thesis
    by (simp add: sorted_map sorted_wrt_map)
qed

lemmas selector_defs = fixed_point_ops_def rate_60_def rate_90_def two_rates_def layer_45_def
  fps_in_range_def getSortedRefreshRateList_def

text \<open>
  C8. When the selector reaches its scoring phase, on available rates of nonzero
  period, the scores are computed (one per available rate, in the order of the list)
  and the selector returns the current rate when no score is greater than zero, and
  otherwise a rate whose score is greater than zero, strictly greater than the score
  of every rate before it in the list and not less than the score of every rate after
  it: the first rate of greatest score. The list, as \<open>getSortedRefreshRateList\<close> builds
  it, is in the order of descending vsync period.
\<close>

theorem getRefreshRateForContentV2_best_score:
  fixes st :: "('f::{linorder,zero}) RefreshRateConfigs"
  assumes "reaches_scoring layers"
    and "\<forall>r \<in> set (mAvailableRefreshRates st). vsyncPeriod r \<noteq> 0"
    and "mAvailableRefreshRates st = getSortedRefreshRateList shouldAdd (mRefreshRates st)"
  shows "\<exists>scores. overallScores ops layers st = Inr scores
     \<and> map fst scores = mAvailableRefreshRates st
     \<and> sorted_wrt (\<lambda>a b. vsyncPeriod a \<ge> vsyncPeriod b) (mAvailableRefreshRates st)
     \<and> (if \<forall>x \<in> set scores. snd x \<le> 0
         then getRefreshRateForContentV2 ops layers st = Inr (mCurrentRefreshRate st)
         else \<exists>pre r s post. scores = pre @ (r, s) # post
                \<and> getRefreshRateForContentV2 ops layers st = Inr r \<and> 0 < s
                \<and> (\<forall>x \<in> set pre. snd x < s) \<and> (\<forall>x \<in> set post. snd x \<le> s))"
proof -
  let ?init = "map (\<lambda>refreshRate. (refreshRate, 0 :: 'f)) (mAvailableRefreshRates st)"
  have "\<forall>x \<in> set ?init. vsyncPeriod (fst x) \<noteq> 0"
    using assms(2) by auto
  from scoreLayers_returns [OF this, of ops "count_votes ExplicitDefault layers"
      "count_votes ExplicitExactOrMultiple layers" layers]
  obtain scores where
    sc: "overallScores ops layers st = Inr scores" and m: "map fst scores = mAvailableRefreshRates st"
    by (auto simp add: overallScores_def comp_def)
  have srt: "sorted_wrt (\<lambda>a b. vsyncPeriod a \<ge> vsyncPeriod b) (mAvailableRefreshRates st)"
    unfolding assms(3) by (rule getSortedRefreshRateList_sorted)
  have g: "getRefreshRateForContentV2 ops layers st =
      (case bestRefreshRate_loop scores 0 None of
         None \<Rightarrow> Inr (mCurrentRefreshRate st)
       | Some bestRefreshRate \<Rightarrow> Inr bestRefreshRate)"
    using assms(1) sc
    by (auto simp add: getRefreshRateForContentV2_def reaches_scoring_def overallScores_def Let_def)
  have sel: "if \<forall>x \<in> set scores. snd x \<le> 0
         then getRefreshRateForContentV2 ops layers st = Inr (mCurrentRefreshRate st)
         else \<exists>pre r s post. scores = pre @ (r, s) # post
                \<and> getRefreshRateForContentV2 ops layers st = Inr r \<and> 0 < s
                \<and> (\<forall>x \<in> set pre. snd x < s) \<and> (\<forall>x \<in> set post. snd x \<le> s)"
  proof (cases "\<forall>x \<in> set scores. snd x \<le> 0")
    case True
    with bestRefreshRate_loop_result [of scores 0 None]
    have "bestRefreshRate_loop scores 0 None = None" by simp
    with True g show ?thesis by simp
  next
    case False
    with bestRefreshRate_loop_result [of scores 0 None] obtain pre r s post where
      "scores = pre @ (r, s) # post" "bestRefreshRate_loop scores 0 None = Some r" "0 < s"
      "\<forall>x \<in> set pre. snd x < s" "\<forall>x \<in> set post. snd x \<le> s"
      by auto
    with g have "scores = pre @ (r, s) # post
                \<and> getRefreshRateForContentV2 ops layers st = Inr r \<and> 0 < s
                \<and> (\<forall>x \<in> set pre. snd x < s) \<and> (\<forall>x \<in> set post. snd x \<le> s)"
      by simp
    then have "\<exists>pre r s post. scores = pre @ (r, s) # post
                \<and> getRefreshRateForContentV2 ops layers st = Inr r \<and> 0 < s
                \<and> (\<forall>x \<in> set pre. snd x < s) \<and> (\<forall>x \<in> set post. snd x \<le> s)"
      by blast
    with False show ?thesis by (simp only: if_not_P if_False)
  qed
  from sc m srt sel show ?thesis by blast
qed

theorem getRefreshRateForContentV2_best_score_witness:
  "reaches_scoring [layer_45]
   \<and> mAvailableRefreshRates two_rates = [rate_60, rate_90]
   \<and> vsyncPeriod rate_60 \<noteq> 0 \<and> vsyncPeriod rate_90 \<noteq> 0
   \<and> sorted_wrt (\<lambda>a b. vsyncPeriod a \<ge> vsyncPeriod b) (mAvailableRefreshRates two_rates)
   \<and> overallScores fixed_point_ops [layer_45] two_rates = Inr [(rate_60, 333), (rate_90, 1000)]
   \<and> getRefreshRateForContentV2 fixed_point_ops [layer_45] two_rates = Inr rate_90"
proof -
  have h1: "reaches_scoring [layer_45]"
    by (simp add: reaches_scoring_def count_votes_def layer_45_def)
  have av: "mAvailableRefreshRates two_rates = [rate_60, rate_90]"
    by (simp add: selector_defs)
  have v: "vsyncPeriod rate_60 \<noteq> 0" "vsyncPeriod rate_90 \<noteq> 0"
    by (simp_all add: selector_defs)
  have h2: "\<forall>r \<in> set (mAvailableRefreshRates two_rates). vsyncPeriod r \<noteq> 0"
    using av v by simp
  have h3: "mAvailableRefreshRates two_rates =
      getSortedRefreshRateList (\<lambda>_. True) (mRefreshRates two_rates)"
    by (simp add: two_rates_def)
  have sc: "overallScores fixed_point_ops [layer_45] two_rates
              = Inr [(rate_60, 333), (rate_90, 1000)]"
    unfolding overallScores_def av
    by (simp add: count_votes_def layer_45_def fixed_point_ops_def rate_60_def rate_90_def
        layerScore_def Let_def MARGIN_def MAX_FRAMES_TO_FIT_def fit_cadence.simps)
  from getRefreshRateForContentV2_best_score [OF h1 h2 h3, of fixed_point_ops]
  obtain scores where
    s: "overallScores fixed_point_ops [layer_45] two_rates = Inr scores"
    and srt: "sorted_wrt (\<lambda>a b. vsyncPeriod a \<ge> vsyncPeriod b) (mAvailableRefreshRates two_rates)"
    and sel: "if \<forall>x \<in> set scores. snd x \<le> 0
         then getRefreshRateForContentV2 fixed_point_ops [layer_45] two_rates
                = Inr (mCurrentRefreshRate two_rates)
         else \<exists>pre r s post. scores = pre @ (r, s) # post
                \<and> getRefreshRateForContentV2 fixed_point_ops [layer_45] two_rates = Inr r
                \<and> 0 < s \<and> (\<forall>x \<in> set pre. snd x < s) \<and> (\<forall>x \<in> set post. snd x \<le> s)"
    by (elim exE conjE)
  from s sc have scores: "scores = [(rate_60, 333), (rate_90, 1000)]" by simp
  from sel obtain pre r s' post where
    d: "[(rate_60, 333), (rate_90, 1000 :: int)] = pre @ (r, s') # post"
    and g: "getRefreshRateForContentV2 fixed_point_ops [layer_45] two_rates = Inr r"
    and p: "\<forall>x \<in> set post. snd x \<le> s'"
    unfolding scores by (auto split: if_splits)
  have "r = rate_90"
  proof (cases pre)
    case Nil
    with d p show ?thesis by auto
  next
    case (Cons a pre')
    with d show ?thesis by (cases pre') auto
  qed
  with h1 av v srt sc g show ?thesis by simp
qed

section \<open>Policy changes\<close>

lemma getSortedRefreshRateList_nonempty:
  assumes "map_of rates k = Some r" and "shouldAdd r"
  shows "getSortedRefreshRateList shouldAdd rates \<noteq> []"
proof -
  from assms(1) have "(k, r) \<in> set rates" by (rule map_of_SomeD)
  then have "r \<in> set (map snd rates)" by force
  with assms(2) have "r \<in> set (filter shouldAdd (map snd rates))" by simp
  then have "r \<in> set (getSortedRefreshRateList shouldAdd rates)"
    by (simp add: getSortedRefreshRateList_def)
  then show ?thesis by auto
qed

text \<open>
  C9. When the requested policy differs from the stored one, \<open>setPolicy\<close> returns (it
  does not abort), reporting the change. Its status is \<open>BAD_VALUE\<close> exactly when the
  given configuration is unknown or its rate is not in the policy by \<open>inPolicy\<close>, and
  then the state is the one before the call. Otherwise the status is \<open>NO_ERROR\<close> and
  the state is the former one with the three policy values installed and the available
  rates rebuilt from them.
\<close>

theorem setPolicy_status:
  assumes "defaultConfigId \<noteq> mDefaultConfig st \<or> minRefreshRate \<noteq> mMinRefreshRateFps st
             \<or> maxRefreshRate \<noteq> mMaxRefreshRateFps st"
  shows "\<exists>status st'.
     setPolicy inPolicy defaultConfigId minRefreshRate maxRefreshRate st = Inr (status, True, st')
     \<and> (status = BAD_VALUE) =
         (case map_of (mRefreshRates st) defaultConfigId of
            None \<Rightarrow> True
          | Some refreshRate \<Rightarrow> \<not> inPolicy refreshRate minRefreshRate maxRefreshRate)
     \<and> (status = BAD_VALUE \<longrightarrow> st' = st)
     \<and> (status \<noteq> BAD_VALUE \<longrightarrow>
           status = NO_ERROR
           \<and> st' = st\<lparr> mDefaultConfig := defaultConfigId,
                        mMinRefreshRateFps := minRefreshRate,
                        mMaxRefreshRateFps := maxRefreshRate,
                        mAvailableRefreshRates :=
                          getSortedRefreshRateList
                            (\<lambda>refreshRate.
                               configGroup refreshRate =
                                 configGroup (the (map_of (mRefreshRates st) defaultConfigId))
                               \<and> inPolicy refreshRate minRefreshRate maxRefreshRate)
                            (mRefreshRates st) \<rparr>)"
proof (cases "map_of (mRefreshRates st) defaultConfigId")
  case None
  with assms show ?thesis by (simp add: setPolicy_def)
next
  case (Some r)
  show ?thesis
  proof (cases "inPolicy r minRefreshRate maxRefreshRate")
    case False
    with assms Some show ?thesis by (simp add: setPolicy_def)
  next
    case True
    have ne: "getSortedRefreshRateList
                (\<lambda>refreshRate. configGroup refreshRate = configGroup r
                   \<and> inPolicy refreshRate minRefreshRate maxRefreshRate)
                (mRefreshRates st) \<noteq> []"
      using Some True by (intro getSortedRefreshRateList_nonempty [of _ defaultConfigId r]) simp_all
    have "constructAvailableRefreshRates inPolicy
            (st\<lparr> mDefaultConfig := defaultConfigId, mMinRefreshRateFps := minRefreshRate,
                 mMaxRefreshRateFps := maxRefreshRate \<rparr>) =
          Inr (st\<lparr> mDefaultConfig := defaultConfigId, mMinRefreshRateFps := minRefreshRate,
                   mMaxRefreshRateFps := maxRefreshRate,
                   mAvailableRefreshRates :=
                     getSortedRefreshRateList
                       (\<lambda>refreshRate. configGroup refreshRate = configGroup r
                          \<and> inPolicy refreshRate minRefreshRate maxRefreshRate)
                       (mRefreshRates st) \<rparr>)"
      using Some ne by (simp add: constructAvailableRefreshRates_def Let_def)
    with assms Some True show ?thesis by (simp add: setPolicy_def)
  qed
qed

theorem setPolicy_status_witness:
  "(5 :: int) \<noteq> mDefaultConfig two_rates
   \<and> setPolicy fps_in_range 5 0 90000 two_rates = Inr (BAD_VALUE, True, two_rates)
   \<and> (1 :: int) \<noteq> mDefaultConfig two_rates
   \<and> (\<exists>st'. setPolicy fps_in_range 1 80000 100000 two_rates = Inr (NO_ERROR, True, st')
         \<and> mDefaultConfig st' = 1 \<and> mMinRefreshRateFps st' = 80000
         \<and> mMaxRefreshRateFps st' = 100000 \<and> mAvailableRefreshRates st' = [rate_90])"
proof -
  have h5: "(5 :: int) \<noteq> mDefaultConfig two_rates \<or> (0 :: int) \<noteq> mMinRefreshRateFps two_rates
             \<or> (90000 :: int) \<noteq> mMaxRefreshRateFps two_rates"
    and h1: "(1 :: int) \<noteq> mDefaultConfig two_rates \<or> (80000 :: int) \<noteq> mMinRefreshRateFps two_rates
             \<or> (100000 :: int) \<noteq> mMaxRefreshRateFps two_rates"
    and d: "(5 :: int) \<noteq> mDefaultConfig two_rates" "(1 :: int) \<noteq> mDefaultConfig two_rates"
    by (simp_all add: two_rates_def)
  have m5: "map_of (mRefreshRates two_rates) 5 = None"
    and m1: "map_of (mRefreshRates two_rates) 1 = Some rate_90"
    and i1: "fps_in_range rate_90 80000 100000"
    by (simp_all add: two_rates_def fps_in_range_def rate_90_def)
  have bad: "setPolicy fps_in_range 5 0 90000 two_rates = Inr (BAD_VALUE, True, two_rates)"
    using setPolicy_status [OF h5, of fps_in_range] m5 by auto
  have a: "getSortedRefreshRateList
             (\<lambda>refreshRate. configGroup refreshRate = configGroup rate_90
                \<and> fps_in_range refreshRate 80000 100000)
             (mRefreshRates two_rates) = [rate_90]"
    by (simp add: selector_defs)
  from setPolicy_status [OF h1, of fps_in_range] obtain status st' where
    r: "setPolicy fps_in_range 1 80000 100000 two_rates = Inr (status, True, st')"
    and b: "(status = BAD_VALUE) =
         (case map_of (mRefreshRates two_rates) 1 of
            None \<Rightarrow> True
          | Some refreshRate \<Rightarrow> \<not> fps_in_range refreshRate 80000 100000)"
    and n: "status \<noteq> BAD_VALUE \<longrightarrow>
           status = NO_ERROR
           \<and> st' = two_rates\<lparr> mDefaultConfig := 1,
                        mMinRefreshRateFps := 80000,
                        mMaxRefreshRateFps := 100000,
                        mAvailableRefreshRates :=
                          getSortedRefreshRateList
                            (\<lambda>refreshRate.
                               configGroup refreshRate =
                                 configGroup (the (map_of (mRefreshRates two_rates) 1))
                               \<and> fps_in_range refreshRate 80000 100000)
                            (mRefreshRates two_rates) \<rparr>"
    by (elim exE conjE)
  from b m1 i1 have nb: "status \<noteq> BAD_VALUE" by simp
  with n have st: "status = NO_ERROR"
    and st': "st' = two_rates\<lparr> mDefaultConfig := 1, mMinRefreshRateFps := 80000,
                 mMaxRefreshRateFps := 100000, mAvailableRefreshRates := [rate_90] \<rparr>"
    using m1 a by simp_all
  have ok: "\<exists>st'. setPolicy fps_in_range 1 80000 100000 two_rates = Inr (NO_ERROR, True, st')
         \<and> mDefaultConfig st' = 1 \<and> mMinRefreshRateFps st' = 80000
         \<and> mMaxRefreshRateFps st' = 100000 \<and> mAvailableRefreshRates st' = [rate_90]"
    using r st st' by simp
  from d bad ok show ?thesis by (intro conjI)
qed

end
